theory Spec2Isabelle
  imports Complex_Main
begin

section \<open>The downsizing analyzer: projection engine of \<open>src/app/page.tsx\<close>\<close>

text \<open>
  The engine is the pure function \<open>simulate\<close> of \<open>page.tsx\<close> together with its helpers
  \<open>pct\<close>, \<open>amortizationPayment\<close>, \<open>growAnnual\<close> and \<open>npv\<close>, and the selection of the
  best scenario in the component \<open>DownsizingAnalyzer\<close>.

  The engine is modelled twice.  The exact model computes on real numbers: arithmetic is
  exact, and it is the program wherever the program computes finite numbers and divides
  by nothing zero (HOL's \<open>x / 0\<close> is \<open>0\<close>, the program's is \<open>Infinity\<close> or \<open>NaN\<close>).
  The second model computes on JavaScript numbers, with \<open>Infinity\<close>, \<open>-Infinity\<close> and
  \<open>NaN\<close>, and a yearly loop that may not return; the rounding and overflow of IEEE
  doubles are modelled in neither.  Theorem \<open>simulate_refines\<close> relates the two: on
  finite inputs whose mortgage payment and discount factors have non-zero divisors, the
  second model returns the output of the exact model.  Statements about formulas and
  balances are made on the exact model; statements that depend on a zero divisor or a
  non-finite number are made on the second.
\<close>

subsection \<open>Types\<close>

text \<open>
  The records are those of the program, with the type of numbers as a parameter:
  \<open>real\<close> for the exact model, \<open>number\<close> (below) for JavaScript's numbers with
  \<open>Infinity\<close> and \<open>NaN\<close>.
\<close>

record 'n Inputs_of =
  currentHomeValue :: 'n
  currentMortgageBalance :: 'n
  sellingCostsPct :: 'n
  capGainsTaxPct :: 'n
  currentHomeAppreciationPct :: 'n
  smallerHomePrice :: 'n
  smallerHomeClosingPct :: 'n
  downPaymentFromProceedsPct :: 'n
  mortgageRatePct :: 'n
  mortgageYears :: 'n
  propertyTaxPct :: 'n
  insuranceAnnual :: 'n
  hoaMonthly :: 'n
  maintenancePct :: 'n
  homeAppreciationPct :: 'n
  monthlyRent :: 'n
  rentAnnualInflationPct :: 'n
  includeStorage :: bool
  storageMonthly :: 'n
  storageAnnualInflationPct :: 'n
  useIVV :: bool
  ivvAnnualReturnPct :: 'n
  investReturnPct :: 'n
  returnAdjustPct :: 'n
  investTaxDragPct :: 'n
  investShareA :: 'n
  investShareB :: 'n
  investShareC :: 'n
  keepPropertyTaxAnnual :: 'n
  keepInsuranceAnnual :: 'n
  keepHoaMonthly :: 'n
  keepExtraMaintAnnual :: 'n
  years :: 'n
  discountRatePct :: 'n

text \<open>One element of \<open>yearlyData\<close>: the object pushed at the end of every year.\<close>

record 'n YearlySnapshot_of =
  year :: nat
  netWorthA :: 'n
  netWorthB :: 'n
  netWorthC :: 'n
  netWorthD :: 'n
  investA :: 'n
  investB :: 'n
  investC :: 'n
  outA :: 'n
  homeCostsB :: 'n
  outC :: 'n
  outD :: 'n
  remainingPrincipal :: 'n
  homeValueB :: 'n
  keepHomeValue :: 'n

text \<open>
  The \<open>key\<close> of a result is a template string that interpolates the invested share; the
  model keeps the scenario letter and the interpolated number.
\<close>

datatype 'n label = KeyA 'n | KeyB 'n | KeyC 'n | KeyD

record 'n ScenarioResult_of =
  key :: "'n label"
  res_npv :: 'n
  terminal :: 'n
  color :: string
  stroke :: string

text \<open>
  The variables of \<open>simulate\<close> that the yearly loop assigns (\<open>let\<close> variables and the
  arrays it pushes to), prefixed \<open>v_\<close> to keep them apart from the snapshot's fields.
\<close>

record 'n loop_vars_of =
  v_investA :: 'n
  v_investB :: 'n
  v_investC :: 'n
  v_rent :: 'n
  v_storage :: 'n
  v_remainingPrincipal :: 'n
  v_homeValueB :: 'n
  v_keepHomeValue :: 'n
  v_yearlyData :: "'n YearlySnapshot_of list"
  v_cashflowsA :: "'n list"
  v_cashflowsB :: "'n list"
  v_cashflowsC :: "'n list"
  v_cashflowsD :: "'n list"

text \<open>The object \<open>simulate\<close> returns.\<close>

record 'n Output_of =
  out_netProceeds :: 'n
  yearlyData :: "'n YearlySnapshot_of list"
  results :: "'n ScenarioResult_of list"

type_synonym Inputs = "real Inputs_of"
type_synonym YearlySnapshot = "real YearlySnapshot_of"
type_synonym ScenarioResult = "real ScenarioResult_of"
type_synonym loop_vars = "real loop_vars_of"
type_synonym Output = "real Output_of"

subsection \<open>Helpers\<close>

definition pct :: "real \<Rightarrow> real" where
  "pct x = x / 100"

text \<open>
  \<open>Math.pow\<close> on finite arguments.  For an integral exponent it is the integer power
  (\<open>Math.pow(x, 0)\<close> is \<open>1\<close> for every \<open>x\<close>, \<open>Math.pow(x, 1)\<close> is \<open>x\<close>); for any other
  exponent and a positive base it is \<open>exp (y * ln x)\<close>.  JavaScript's results
  \<open>Infinity\<close> (zero base, negative exponent) and \<open>NaN\<close> (negative base, fractional
  exponent) are outside the model.
\<close>

definition pow :: "real \<Rightarrow> real \<Rightarrow> real" where
  "pow x y = (if y = of_int \<lfloor>y\<rfloor> then x powi \<lfloor>y\<rfloor> else x powr y)"

definition amortizationPayment :: "real \<Rightarrow> real \<Rightarrow> real \<Rightarrow> real" where
  "amortizationPayment principal0 annualRatePct yrs =
     (let r = pct annualRatePct / 12;
          n = yrs * 12
      in if r = 0 then principal0 / n else (principal0 * r) / (1 - pow (1 + r) (- n)))"

text \<open>\<open>growAnnual\<close> has the default argument \<open>years = 1\<close>; every call passes it here.\<close>

definition growAnnual :: "real \<Rightarrow> real \<Rightarrow> real \<Rightarrow> real" where
  "growAnnual val ratePct yrs = val * pow (1 + pct ratePct) yrs"

text \<open>
  \<open>cashflows.reduce((acc, cf, t) => acc + cf / Math.pow(1 + r, t), 0)\<close>: a left fold
  over the entries paired with their indices.
\<close>

definition npv :: "real list \<Rightarrow> real \<Rightarrow> real" where
  "npv cashflows discountRatePct' =
     (let r = pct discountRatePct'
      in foldl (\<lambda>acc (cf, t). acc + cf / pow (1 + r) (real t)) 0
           (zip cashflows [0..<length cashflows]))"

subsection \<open>The constants of \<open>simulate\<close>\<close>

definition sellingCosts :: "Inputs \<Rightarrow> real" where
  "sellingCosts I = currentHomeValue I * pct (sellingCostsPct I)"

definition equityBeforeTax :: "Inputs \<Rightarrow> real" where
  "equityBeforeTax I = currentHomeValue I - currentMortgageBalance I - sellingCosts I"

definition capGainsTax :: "Inputs \<Rightarrow> real" where
  "capGainsTax I = max 0 (equityBeforeTax I) * pct (capGainsTaxPct I)"

definition netProceeds :: "Inputs \<Rightarrow> real" where
  "netProceeds I = equityBeforeTax I - capGainsTax I"

definition baseline :: "Inputs \<Rightarrow> real" where
  "baseline I = (if useIVV I then ivvAnnualReturnPct I else investReturnPct I)"

definition investGrossRate :: "Inputs \<Rightarrow> real" where
  "investGrossRate I = baseline I + returnAdjustPct I"

definition investNetRate :: "Inputs \<Rightarrow> real" where
  "investNetRate I = investGrossRate I - investTaxDragPct I"

definition dpB :: "Inputs \<Rightarrow> real" where
  "dpB I = netProceeds I * pct (downPaymentFromProceedsPct I)"

definition mortgagePrincipalB :: "Inputs \<Rightarrow> real" where
  "mortgagePrincipalB I = max 0 (smallerHomePrice I - dpB I)"

definition mortgagePayment :: "Inputs \<Rightarrow> real" where
  "mortgagePayment I =
     amortizationPayment (mortgagePrincipalB I) (mortgageRatePct I) (mortgageYears I)"

definition monthlyMortgageRate :: "Inputs \<Rightarrow> real" where
  "monthlyMortgageRate I = pct (mortgageRatePct I) / 12"

definition cashC :: "Inputs \<Rightarrow> real" where
  "cashC I = netProceeds I * (1 - pct (investShareC I))"

subsection \<open>The monthly amortization loop\<close>

text \<open>
  One pass of the body of \<open>for (let m = 0; m < 12; m++)\<close> on the pair
  (\<open>remainingPrincipal\<close>, \<open>interestPaidYear\<close>).
\<close>

definition month_step :: "real \<Rightarrow> real \<Rightarrow> real \<times> real \<Rightarrow> real \<times> real" where
  "month_step payment rate st =
     (let interest = fst st * rate;
          principalPaid = min (payment - interest) (fst st)
      in (fst st - principalPaid, snd st + interest))"

text \<open>
  The loop with \<open>k\<close> passes left; \<open>if (remainingPrincipal <= 1e-6) break\<close> ends it
  early.
\<close>

fun month_loop :: "real \<Rightarrow> real \<Rightarrow> nat \<Rightarrow> real \<times> real \<Rightarrow> real \<times> real" where
  "month_loop payment rate 0 st = st"
| "month_loop payment rate (Suc k) st =
     (let st' = month_step payment rate st
      in if fst st' \<le> 1 / 1000000 then st' else month_loop payment rate k st')"

subsection \<open>The yearly loop\<close>

definition init_vars :: "Inputs \<Rightarrow> loop_vars" where
  "init_vars I =
     \<lparr> v_investA = netProceeds I * pct (investShareA I),
       v_investB = (netProceeds I - dpB I) * pct (investShareB I),
       v_investC = netProceeds I * pct (investShareC I),
       v_rent = monthlyRent I,
       v_storage = storageMonthly I,
       v_remainingPrincipal = mortgagePrincipalB I,
       v_homeValueB = smallerHomePrice I,
       v_keepHomeValue = currentHomeValue I,
       v_yearlyData = [],
       v_cashflowsA = [0],
       v_cashflowsB = [- (smallerHomePrice I * pct (smallerHomeClosingPct I)) - dpB I],
       v_cashflowsC = [0],
       v_cashflowsD = [0] \<rparr>"

text \<open>The body of \<open>for (let y = 1; y <= I.years; y++)\<close>.\<close>

definition year_body :: "Inputs \<Rightarrow> nat \<Rightarrow> loop_vars \<Rightarrow> loop_vars" where
  "year_body I y s =
     (let investA1 = growAnnual (v_investA s) (investNetRate I) 1;
          investB1 = growAnnual (v_investB s) (investNetRate I) 1;
          investC1 = growAnnual (v_investC s) (investNetRate I) 1;
          rentAnnual = v_rent s * 12;
          storageAnnual = (if includeStorage I then v_storage s else 0) * 12;
          rent1 = v_rent s * (1 + pct (rentAnnualInflationPct I));
          storage1 = v_storage s * (1 + pct (storageAnnualInflationPct I));
          outA1 = rentAnnual + storageAnnual;
          amort = month_loop (mortgagePayment I) (monthlyMortgageRate I) 12
                    (v_remainingPrincipal s, 0);
          remainingPrincipal1 = fst amort;
          interestPaidYear = snd amort;
          propertyTaxB = v_homeValueB s * pct (propertyTaxPct I);
          maintenanceB = v_homeValueB s * pct (maintenancePct I);
          hoaB = hoaMonthly I * 12;
          homeCostsB1 = interestPaidYear + propertyTaxB + maintenanceB + insuranceAnnual I + hoaB;
          homeValueB1 = growAnnual (v_homeValueB s) (homeAppreciationPct I) 1;
          outC1 = rentAnnual + storageAnnual;
          hoaD = keepHoaMonthly I * 12;
          outD1 = keepPropertyTaxAnnual I + keepInsuranceAnnual I + hoaD + keepExtraMaintAnnual I;
          keepHomeValue1 = growAnnual (v_keepHomeValue s) (currentHomeAppreciationPct I) 1;
          snapshot =
            \<lparr> year = y,
              netWorthA = investA1 - outA1,
              netWorthB = investB1 + homeValueB1 - remainingPrincipal1 - homeCostsB1,
              netWorthC = investC1 + cashC I - outC1,
              netWorthD = keepHomeValue1 - outD1,
              investA = investA1,
              investB = investB1,
              investC = investC1,
              outA = outA1,
              homeCostsB = homeCostsB1,
              outC = outC1,
              outD = outD1,
              remainingPrincipal = max 0 remainingPrincipal1,
              homeValueB = homeValueB1,
              keepHomeValue = keepHomeValue1 \<rparr>
      in \<lparr> v_investA = investA1,
           v_investB = investB1,
           v_investC = investC1,
           v_rent = rent1,
           v_storage = storage1,
           v_remainingPrincipal = remainingPrincipal1,
           v_homeValueB = homeValueB1,
           v_keepHomeValue = keepHomeValue1,
           v_yearlyData = v_yearlyData s @ [snapshot],
           v_cashflowsA = v_cashflowsA s @ [- outA1],
           v_cashflowsB = v_cashflowsB s @ [- homeCostsB1],
           v_cashflowsC = v_cashflowsC s @ [- outC1],
           v_cashflowsD = v_cashflowsD s @ [- outD1] \<rparr>)"

text \<open>
  The loop itself, entered with \<open>y = 1\<close>: it runs while \<open>y <= I.years\<close>, so for
  \<open>y = 1, \<dots>, \<lfloor>years\<rfloor>\<close>, and not at all when \<open>years < 1\<close>.
\<close>

function year_loop :: "Inputs \<Rightarrow> nat \<Rightarrow> loop_vars \<Rightarrow> loop_vars" where
  "year_loop I y s = (if real y \<le> years I then year_loop I (Suc y) (year_body I y s) else s)"
  by pat_completeness auto
termination
proof (relation "measure (\<lambda>(I, y, s). Suc (nat \<lfloor>years I\<rfloor>) - y)")
  show "wf (measure (\<lambda>(I, y, s). Suc (nat \<lfloor>years I\<rfloor>) - y))"
    by simp
next
  fix I :: Inputs and y :: nat and s :: loop_vars
  assume "real y \<le> years I"
  then have "int y \<le> \<lfloor>years I\<rfloor>"
    by (simp add: le_floor_iff)
  then have "y \<le> nat \<lfloor>years I\<rfloor>"
    by linarith
  then show "((I, Suc y, year_body I y s), (I, y, s))
      \<in> measure (\<lambda>(I, y, s). Suc (nat \<lfloor>years I\<rfloor>) - y)"
    by simp
qed

declare year_loop.simps [simp del]

subsection \<open>Terminal values, results and \<open>simulate\<close>\<close>

text \<open>\<open>yearlyData.at(-1)?.f ?? 0\<close>: the field of the last snapshot, \<open>0\<close> when there is none.\<close>

definition at_last :: "(YearlySnapshot \<Rightarrow> real) \<Rightarrow> YearlySnapshot list \<Rightarrow> real" where
  "at_last f yd = (case yd of [] \<Rightarrow> 0 | _ # _ \<Rightarrow> f (last yd))"

definition terminalA :: "loop_vars \<Rightarrow> real" where
  "terminalA s = at_last investA (v_yearlyData s)"

definition terminalB :: "loop_vars \<Rightarrow> real" where
  "terminalB s =
     at_last homeValueB (v_yearlyData s) - at_last remainingPrincipal (v_yearlyData s)
       + at_last investB (v_yearlyData s)"

definition terminalC :: "Inputs \<Rightarrow> loop_vars \<Rightarrow> real" where
  "terminalC I s = at_last investC (v_yearlyData s) + cashC I"

definition terminalD :: "loop_vars \<Rightarrow> real" where
  "terminalD s = at_last keepHomeValue (v_yearlyData s)"

definition final_vars :: "Inputs \<Rightarrow> loop_vars" where
  "final_vars I = year_loop I 1 (init_vars I)"

definition simulate :: "Inputs \<Rightarrow> Output" where
  "simulate I =
     (let s = final_vars I;
          npvA = npv (v_cashflowsA s @ [terminalA s]) (discountRatePct I);
          npvB = npv (v_cashflowsB s @ [terminalB s]) (discountRatePct I);
          npvC = npv (v_cashflowsC s @ [terminalC I s]) (discountRatePct I);
          npvD = npv (v_cashflowsD s @ [terminalD s]) (discountRatePct I)
      in \<lparr> out_netProceeds = netProceeds I,
           yearlyData = v_yearlyData s,
           results =
             [ \<lparr> key = KeyA (investShareA I), res_npv = npvA, terminal = terminalA s,
                 color = ''from-sky-500/20 to-sky-500/5'', stroke = ''#0ea5e9'' \<rparr>,
               \<lparr> key = KeyB (investShareB I), res_npv = npvB, terminal = terminalB s,
                 color = ''from-emerald-500/20 to-emerald-500/5'', stroke = ''#10b981'' \<rparr>,
               \<lparr> key = KeyC (investShareC I), res_npv = npvC, terminal = terminalC I s,
                 color = ''from-amber-500/20 to-amber-500/5'', stroke = ''#f59e0b'' \<rparr>,
               \<lparr> key = KeyD, res_npv = npvD, terminal = terminalD s,
                 color = ''from-violet-500/20 to-violet-500/5'', stroke = ''#8b5cf6'' \<rparr> ] \<rparr>)"

subsection \<open>The initial form state\<close>

text \<open>The argument of \<open>useState\<close> in \<open>DownsizingAnalyzer\<close>.\<close>

definition default_inputs :: Inputs where
  "default_inputs =
     \<lparr> currentHomeValue = 1300000,
       currentMortgageBalance = 0,
       sellingCostsPct = 6,
       capGainsTaxPct = 0,
       currentHomeAppreciationPct = 3,
       smallerHomePrice = 700000,
       smallerHomeClosingPct = 5 / 2,
       downPaymentFromProceedsPct = 50,
       mortgageRatePct = 13 / 2,
       mortgageYears = 30,
       propertyTaxPct = 21 / 10,
       insuranceAnnual = 2500,
       hoaMonthly = 250,
       maintenancePct = 1,
       homeAppreciationPct = 3,
       monthlyRent = 4500,
       rentAnnualInflationPct = 3,
       includeStorage = True,
       storageMonthly = 350,
       storageAnnualInflationPct = 3,
       useIVV = True,
       ivvAnnualReturnPct = 8,
       investReturnPct = 13 / 2,
       returnAdjustPct = 0,
       investTaxDragPct = 1 / 2,
       investShareA = 100,
       investShareB = 50,
       investShareC = 50,
       keepPropertyTaxAnnual = 13500,
       keepInsuranceAnnual = 7000,
       keepHoaMonthly = 180,
       keepExtraMaintAnnual = 2500,
       years = 15,
       discountRatePct = 11 / 2 \<rparr>"

subsection \<open>Notions the statements use\<close>

text \<open>The number of passes of the yearly loop, the horizon \<open>N\<close>.\<close>

definition horizon :: "Inputs \<Rightarrow> nat" where
  "horizon I = nat \<lfloor>years I\<rfloor>"

text \<open>The loop's variables after its first \<open>k\<close> passes (\<open>y = 1, \<dots>, k\<close>).\<close>

definition vars_after :: "Inputs \<Rightarrow> nat \<Rightarrow> loop_vars" where
  "vars_after I k = fold (year_body I) [1..<Suc k] (init_vars I)"

text \<open>The snapshot that pass \<open>y\<close> pushes when it starts from the variables \<open>s\<close>.\<close>

definition pushed :: "Inputs \<Rightarrow> nat \<Rightarrow> loop_vars \<Rightarrow> YearlySnapshot" where
  "pushed I y s = last (v_yearlyData (year_body I y s))"

section \<open>The engine on JavaScript numbers\<close>

subsection \<open>Numbers\<close>

text \<open>
  A JavaScript number, rounding aside: a real number, \<open>Infinity\<close>, \<open>-Infinity\<close> or
  \<open>NaN\<close>.  Zero has no sign here: a non-zero number divided by zero is the infinity of
  the dividend's sign, as it is for \<open>+0\<close>, the only zero divisor the engine meets on
  inputs that are not \<open>-0\<close> themselves.  The operations are those of IEEE 754:
  \<open>NaN\<close> absorbs, \<open>Infinity - Infinity\<close>, \<open>0 * Infinity\<close>, \<open>0 / 0\<close> and
  \<open>Infinity / Infinity\<close> are \<open>NaN\<close>, every comparison with \<open>NaN\<close> is false.
\<close>

datatype number = Fin real | PInf | NInf | NaN

definition inf_of_sign :: "real \<Rightarrow> number" where
  "inf_of_sign s = (if s = 0 then NaN else if 0 < s then PInf else NInf)"

instantiation number :: "{zero, one, plus, uminus, minus, times, inverse, ord}"
begin

definition zero_number :: number where
  "zero_number = Fin 0"

definition one_number :: number where
  "one_number = Fin 1"

fun plus_number :: "number \<Rightarrow> number \<Rightarrow> number" where
  "plus_number (Fin a) (Fin b) = Fin (a + b)"
| "plus_number NaN y = NaN"
| "plus_number x NaN = NaN"
| "plus_number PInf NInf = NaN"
| "plus_number NInf PInf = NaN"
| "plus_number PInf y = PInf"
| "plus_number x PInf = PInf"
| "plus_number NInf y = NInf"
| "plus_number x NInf = NInf"

fun uminus_number :: "number \<Rightarrow> number" where
  "uminus_number (Fin a) = Fin (- a)"
| "uminus_number PInf = NInf"
| "uminus_number NInf = PInf"
| "uminus_number NaN = NaN"

definition minus_number :: "number \<Rightarrow> number \<Rightarrow> number" where
  "minus_number x y = x + (- y)"

fun times_number :: "number \<Rightarrow> number \<Rightarrow> number" where
  "times_number (Fin a) (Fin b) = Fin (a * b)"
| "times_number NaN y = NaN"
| "times_number x NaN = NaN"
| "times_number (Fin a) PInf = inf_of_sign a"
| "times_number (Fin a) NInf = inf_of_sign (- a)"
| "times_number PInf (Fin b) = inf_of_sign b"
| "times_number NInf (Fin b) = inf_of_sign (- b)"
| "times_number PInf PInf = PInf"
| "times_number PInf NInf = NInf"
| "times_number NInf PInf = NInf"
| "times_number NInf NInf = PInf"

fun divide_number :: "number \<Rightarrow> number \<Rightarrow> number" where
  "divide_number (Fin a) (Fin b) = (if b = 0 then inf_of_sign a else Fin (a / b))"
| "divide_number NaN y = NaN"
| "divide_number x NaN = NaN"
| "divide_number (Fin a) y = Fin 0"
| "divide_number PInf (Fin b) = (if b < 0 then NInf else PInf)"
| "divide_number NInf (Fin b) = (if b < 0 then PInf else NInf)"
| "divide_number x y = NaN"

definition inverse_number :: "number \<Rightarrow> number" where
  "inverse_number x = divide (Fin 1) x"

fun less_eq_number :: "number \<Rightarrow> number \<Rightarrow> bool" where
  "less_eq_number (Fin a) (Fin b) = (a \<le> b)"
| "less_eq_number NaN y = False"
| "less_eq_number x NaN = False"
| "less_eq_number NInf y = True"
| "less_eq_number x PInf = True"
| "less_eq_number x y = False"

fun less_number :: "number \<Rightarrow> number \<Rightarrow> bool" where
  "less_number (Fin a) (Fin b) = (a < b)"
| "less_number NaN y = False"
| "less_number x NaN = False"
| "less_number PInf y = False"
| "less_number x NInf = False"
| "less_number x y = True"

instance ..

end

text \<open>
  \<open>Math.max\<close> and \<open>Math.min\<close> return \<open>NaN\<close> when an argument is \<open>NaN\<close>.
\<close>

definition Math_max :: "number \<Rightarrow> number \<Rightarrow> number" where
  "Math_max a b = (if a = NaN \<or> b = NaN then NaN else if a \<le> b then b else a)"

definition Math_min :: "number \<Rightarrow> number \<Rightarrow> number" where
  "Math_min a b = (if a = NaN \<or> b = NaN then NaN else if a \<le> b then a else b)"

text \<open>
  \<open>Math.pow\<close>: \<open>1\<close> for a zero exponent, whatever the base; \<open>NaN\<close> for a \<open>NaN\<close>
  argument otherwise; \<open>Infinity\<close> for a zero base and a negative exponent; \<open>NaN\<close> for a
  negative base and a fractional exponent; the real power otherwise, with the usual
  limits at the infinities.
\<close>

definition whole :: "real \<Rightarrow> bool" where
  "whole y = (y = of_int \<lfloor>y\<rfloor>)"

fun Math_pow :: "number \<Rightarrow> number \<Rightarrow> number" where
  "Math_pow x NaN = NaN"
| "Math_pow x (Fin y) =
     (if y = 0 then Fin 1
      else case x of
        NaN \<Rightarrow> NaN
      | Fin a \<Rightarrow>
          if a = 0 then (if 0 < y then Fin 0 else PInf)
          else if whole y then Fin (a powi \<lfloor>y\<rfloor>)
          else if 0 < a then Fin (a powr y)
          else NaN
      | PInf \<Rightarrow> (if 0 < y then PInf else Fin 0)
      | NInf \<Rightarrow> (if 0 < y then (if whole y \<and> odd \<lfloor>y\<rfloor> then NInf else PInf) else Fin 0))"
| "Math_pow x PInf =
     (case x of
        NaN \<Rightarrow> NaN
      | Fin a \<Rightarrow> (if 1 < \<bar>a\<bar> then PInf else if \<bar>a\<bar> < 1 then Fin 0 else NaN)
      | _ \<Rightarrow> PInf)"
| "Math_pow x NInf =
     (case x of
        NaN \<Rightarrow> NaN
      | Fin a \<Rightarrow> (if 1 < \<bar>a\<bar> then Fin 0 else if \<bar>a\<bar> < 1 then PInf else NaN)
      | _ \<Rightarrow> Fin 0)"

declare Math_pow.simps [simp del]

subsection \<open>The engine\<close>

text \<open>
  The functions of \<open>page.tsx\<close> once more, operation by operation as above, on
  JavaScript numbers; \<open>r === 0\<close> is false for \<open>NaN\<close>, as the equality with \<open>Fin 0\<close> is.
\<close>

type_synonym js_Inputs = "number Inputs_of"
type_synonym js_YearlySnapshot = "number YearlySnapshot_of"
type_synonym js_ScenarioResult = "number ScenarioResult_of"
type_synonym js_loop_vars = "number loop_vars_of"
type_synonym js_Output = "number Output_of"

definition js_pct :: "number \<Rightarrow> number" where
  "js_pct x = x / Fin 100"

definition js_amortizationPayment :: "number \<Rightarrow> number \<Rightarrow> number \<Rightarrow> number" where
  "js_amortizationPayment principal0 annualRatePct yrs =
     (let r = js_pct annualRatePct / Fin 12;
          n = yrs * Fin 12
      in if r = Fin 0 then principal0 / n
         else (principal0 * r) / (Fin 1 - Math_pow (Fin 1 + r) (- n)))"

definition js_growAnnual :: "number \<Rightarrow> number \<Rightarrow> number \<Rightarrow> number" where
  "js_growAnnual val ratePct yrs = val * Math_pow (Fin 1 + js_pct ratePct) yrs"

definition js_npv :: "number list \<Rightarrow> number \<Rightarrow> number" where
  "js_npv cashflows discountRatePct' =
     (let r = js_pct discountRatePct'
      in foldl (\<lambda>acc (cf, t). acc + cf / Math_pow (Fin 1 + r) (Fin (real t))) (Fin 0)
           (zip cashflows [0..<length cashflows]))"

definition js_sellingCosts :: "js_Inputs \<Rightarrow> number" where
  "js_sellingCosts I = currentHomeValue I * js_pct (sellingCostsPct I)"

definition js_equityBeforeTax :: "js_Inputs \<Rightarrow> number" where
  "js_equityBeforeTax I = currentHomeValue I - currentMortgageBalance I - js_sellingCosts I"

definition js_capGainsTax :: "js_Inputs \<Rightarrow> number" where
  "js_capGainsTax I = Math_max (Fin 0) (js_equityBeforeTax I) * js_pct (capGainsTaxPct I)"

definition js_netProceeds :: "js_Inputs \<Rightarrow> number" where
  "js_netProceeds I = js_equityBeforeTax I - js_capGainsTax I"

definition js_baseline :: "js_Inputs \<Rightarrow> number" where
  "js_baseline I = (if useIVV I then ivvAnnualReturnPct I else investReturnPct I)"

definition js_investGrossRate :: "js_Inputs \<Rightarrow> number" where
  "js_investGrossRate I = js_baseline I + returnAdjustPct I"

definition js_investNetRate :: "js_Inputs \<Rightarrow> number" where
  "js_investNetRate I = js_investGrossRate I - investTaxDragPct I"

definition js_dpB :: "js_Inputs \<Rightarrow> number" where
  "js_dpB I = js_netProceeds I * js_pct (downPaymentFromProceedsPct I)"

definition js_mortgagePrincipalB :: "js_Inputs \<Rightarrow> number" where
  "js_mortgagePrincipalB I = Math_max (Fin 0) (smallerHomePrice I - js_dpB I)"

definition js_mortgagePayment :: "js_Inputs \<Rightarrow> number" where
  "js_mortgagePayment I =
     js_amortizationPayment (js_mortgagePrincipalB I) (mortgageRatePct I) (mortgageYears I)"

definition js_monthlyMortgageRate :: "js_Inputs \<Rightarrow> number" where
  "js_monthlyMortgageRate I = js_pct (mortgageRatePct I) / Fin 12"

definition js_cashC :: "js_Inputs \<Rightarrow> number" where
  "js_cashC I = js_netProceeds I * (Fin 1 - js_pct (investShareC I))"

definition js_month_step :: "number \<Rightarrow> number \<Rightarrow> number \<times> number \<Rightarrow> number \<times> number" where
  "js_month_step payment rate st =
     (let interest = fst st * rate;
          principalPaid = Math_min (payment - interest) (fst st)
      in (fst st - principalPaid, snd st + interest))"

fun js_month_loop :: "number \<Rightarrow> number \<Rightarrow> nat \<Rightarrow> number \<times> number \<Rightarrow> number \<times> number" where
  "js_month_loop payment rate 0 st = st"
| "js_month_loop payment rate (Suc k) st =
     (let st' = js_month_step payment rate st
      in if fst st' \<le> Fin (1 / 1000000) then st' else js_month_loop payment rate k st')"

definition js_init_vars :: "js_Inputs \<Rightarrow> js_loop_vars" where
  "js_init_vars I =
     \<lparr> v_investA = js_netProceeds I * js_pct (investShareA I),
       v_investB = (js_netProceeds I - js_dpB I) * js_pct (investShareB I),
       v_investC = js_netProceeds I * js_pct (investShareC I),
       v_rent = monthlyRent I,
       v_storage = storageMonthly I,
       v_remainingPrincipal = js_mortgagePrincipalB I,
       v_homeValueB = smallerHomePrice I,
       v_keepHomeValue = currentHomeValue I,
       v_yearlyData = [],
       v_cashflowsA = [Fin 0],
       v_cashflowsB = [- (smallerHomePrice I * js_pct (smallerHomeClosingPct I)) - js_dpB I],
       v_cashflowsC = [Fin 0],
       v_cashflowsD = [Fin 0] \<rparr>"

definition js_year_body :: "js_Inputs \<Rightarrow> nat \<Rightarrow> js_loop_vars \<Rightarrow> js_loop_vars" where
  "js_year_body I y s =
     (let investA1 = js_growAnnual (v_investA s) (js_investNetRate I) (Fin 1);
          investB1 = js_growAnnual (v_investB s) (js_investNetRate I) (Fin 1);
          investC1 = js_growAnnual (v_investC s) (js_investNetRate I) (Fin 1);
          rentAnnual = v_rent s * Fin 12;
          storageAnnual = (if includeStorage I then v_storage s else Fin 0) * Fin 12;
          rent1 = v_rent s * (Fin 1 + js_pct (rentAnnualInflationPct I));
          storage1 = v_storage s * (Fin 1 + js_pct (storageAnnualInflationPct I));
          outA1 = rentAnnual + storageAnnual;
          amort = js_month_loop (js_mortgagePayment I) (js_monthlyMortgageRate I) 12
                    (v_remainingPrincipal s, Fin 0);
          remainingPrincipal1 = fst amort;
          interestPaidYear = snd amort;
          propertyTaxB = v_homeValueB s * js_pct (propertyTaxPct I);
          maintenanceB = v_homeValueB s * js_pct (maintenancePct I);
          hoaB = hoaMonthly I * Fin 12;
          homeCostsB1 = interestPaidYear + propertyTaxB + maintenanceB + insuranceAnnual I + hoaB;
          homeValueB1 = js_growAnnual (v_homeValueB s) (homeAppreciationPct I) (Fin 1);
          outC1 = rentAnnual + storageAnnual;
          hoaD = keepHoaMonthly I * Fin 12;
          outD1 = keepPropertyTaxAnnual I + keepInsuranceAnnual I + hoaD + keepExtraMaintAnnual I;
          keepHomeValue1 = js_growAnnual (v_keepHomeValue s) (currentHomeAppreciationPct I) (Fin 1);
          snapshot =
            \<lparr> year = y,
              netWorthA = investA1 - outA1,
              netWorthB = investB1 + homeValueB1 - remainingPrincipal1 - homeCostsB1,
              netWorthC = investC1 + js_cashC I - outC1,
              netWorthD = keepHomeValue1 - outD1,
              investA = investA1,
              investB = investB1,
              investC = investC1,
              outA = outA1,
              homeCostsB = homeCostsB1,
              outC = outC1,
              outD = outD1,
              remainingPrincipal = Math_max (Fin 0) remainingPrincipal1,
              homeValueB = homeValueB1,
              keepHomeValue = keepHomeValue1 \<rparr>
      in \<lparr> v_investA = investA1,
           v_investB = investB1,
           v_investC = investC1,
           v_rent = rent1,
           v_storage = storage1,
           v_remainingPrincipal = remainingPrincipal1,
           v_homeValueB = homeValueB1,
           v_keepHomeValue = keepHomeValue1,
           v_yearlyData = v_yearlyData s @ [snapshot],
           v_cashflowsA = v_cashflowsA s @ [- outA1],
           v_cashflowsB = v_cashflowsB s @ [- homeCostsB1],
           v_cashflowsC = v_cashflowsC s @ [- outC1],
           v_cashflowsD = v_cashflowsD s @ [- outD1] \<rparr>)"

text \<open>
  The yearly loop may run forever (a horizon of \<open>Infinity\<close>): it returns \<open>None\<close> then.
  The counter \<open>y\<close> is a finite number.
\<close>

partial_function (option) js_year_loop ::
    "js_Inputs \<Rightarrow> nat \<Rightarrow> js_loop_vars \<Rightarrow> js_loop_vars option" where
  "js_year_loop I y s =
     (if Fin (real y) \<le> years I then js_year_loop I (Suc y) (js_year_body I y s) else Some s)"

definition js_at_last :: "(js_YearlySnapshot \<Rightarrow> number) \<Rightarrow> js_YearlySnapshot list \<Rightarrow> number" where
  "js_at_last f yd = (case yd of [] \<Rightarrow> Fin 0 | _ # _ \<Rightarrow> f (last yd))"

definition js_terminalA :: "js_loop_vars \<Rightarrow> number" where
  "js_terminalA s = js_at_last investA (v_yearlyData s)"

definition js_terminalB :: "js_loop_vars \<Rightarrow> number" where
  "js_terminalB s =
     js_at_last homeValueB (v_yearlyData s) - js_at_last remainingPrincipal (v_yearlyData s)
       + js_at_last investB (v_yearlyData s)"

definition js_terminalC :: "js_Inputs \<Rightarrow> js_loop_vars \<Rightarrow> number" where
  "js_terminalC I s = js_at_last investC (v_yearlyData s) + js_cashC I"

definition js_terminalD :: "js_loop_vars \<Rightarrow> number" where
  "js_terminalD s = js_at_last keepHomeValue (v_yearlyData s)"

definition js_finish :: "js_Inputs \<Rightarrow> js_loop_vars \<Rightarrow> js_Output" where
  "js_finish I s =
     (let npvA = js_npv (v_cashflowsA s @ [js_terminalA s]) (discountRatePct I);
          npvB = js_npv (v_cashflowsB s @ [js_terminalB s]) (discountRatePct I);
          npvC = js_npv (v_cashflowsC s @ [js_terminalC I s]) (discountRatePct I);
          npvD = js_npv (v_cashflowsD s @ [js_terminalD s]) (discountRatePct I)
      in \<lparr> out_netProceeds = js_netProceeds I,
           yearlyData = v_yearlyData s,
           results =
             [ \<lparr> key = KeyA (investShareA I), res_npv = npvA, terminal = js_terminalA s,
                 color = ''from-sky-500/20 to-sky-500/5'', stroke = ''#0ea5e9'' \<rparr>,
               \<lparr> key = KeyB (investShareB I), res_npv = npvB, terminal = js_terminalB s,
                 color = ''from-emerald-500/20 to-emerald-500/5'', stroke = ''#10b981'' \<rparr>,
               \<lparr> key = KeyC (investShareC I), res_npv = npvC, terminal = js_terminalC I s,
                 color = ''from-amber-500/20 to-amber-500/5'', stroke = ''#f59e0b'' \<rparr>,
               \<lparr> key = KeyD, res_npv = npvD, terminal = js_terminalD s,
                 color = ''from-violet-500/20 to-violet-500/5'', stroke = ''#8b5cf6'' \<rparr> ] \<rparr>)"

definition js_simulate :: "js_Inputs \<Rightarrow> js_Output option" where
  "js_simulate I = map_option (js_finish I) (js_year_loop I 1 (js_init_vars I))"

subsection \<open>The best scenario\<close>

text \<open>
  \<open>[...results].sort((a, b) => b.npv - a.npv)[0]\<close>.  \<open>Array.prototype.sort\<close> is stable
  and takes a comparator result of \<open>NaN\<close> for \<open>0\<close>: an element moves behind a later one
  only when the comparator is positive on the two.  Where the comparator is a consistent
  order (on finite NPVs, and where every comparison is \<open>NaN\<close>) the sorted array is the
  one this stable insertion sort produces.  Indexing an empty array gives \<open>undefined\<close>,
  here \<open>None\<close>.
\<close>

fun insert_by :: "('a \<Rightarrow> 'a \<Rightarrow> number) \<Rightarrow> 'a \<Rightarrow> 'a list \<Rightarrow> 'a list" where
  "insert_by cmp x [] = [x]"
| "insert_by cmp x (y # ys) = (if Fin 0 < cmp x y then y # insert_by cmp x ys else x # y # ys)"

definition sort_by :: "('a \<Rightarrow> 'a \<Rightarrow> number) \<Rightarrow> 'a list \<Rightarrow> 'a list" where
  "sort_by cmp xs = foldr (insert_by cmp) xs []"

definition best :: "js_ScenarioResult list \<Rightarrow> js_ScenarioResult option" where
  "best rs = (case sort_by (\<lambda>a b. res_npv b - res_npv a) rs of [] \<Rightarrow> None | r # _ \<Rightarrow> Some r)"

subsection \<open>Finite inputs\<close>

text \<open>
  A ParameterSet, the loop variables and an output of real numbers, as JavaScript
  numbers.
\<close>

definition fin_inputs :: "Inputs \<Rightarrow> js_Inputs" where
  "fin_inputs I =
     \<lparr> currentHomeValue = Fin (currentHomeValue I),
       currentMortgageBalance = Fin (currentMortgageBalance I),
       sellingCostsPct = Fin (sellingCostsPct I),
       capGainsTaxPct = Fin (capGainsTaxPct I),
       currentHomeAppreciationPct = Fin (currentHomeAppreciationPct I),
       smallerHomePrice = Fin (smallerHomePrice I),
       smallerHomeClosingPct = Fin (smallerHomeClosingPct I),
       downPaymentFromProceedsPct = Fin (downPaymentFromProceedsPct I),
       mortgageRatePct = Fin (mortgageRatePct I),
       mortgageYears = Fin (mortgageYears I),
       propertyTaxPct = Fin (propertyTaxPct I),
       insuranceAnnual = Fin (insuranceAnnual I),
       hoaMonthly = Fin (hoaMonthly I),
       maintenancePct = Fin (maintenancePct I),
       homeAppreciationPct = Fin (homeAppreciationPct I),
       monthlyRent = Fin (monthlyRent I),
       rentAnnualInflationPct = Fin (rentAnnualInflationPct I),
       includeStorage = includeStorage I,
       storageMonthly = Fin (storageMonthly I),
       storageAnnualInflationPct = Fin (storageAnnualInflationPct I),
       useIVV = useIVV I,
       ivvAnnualReturnPct = Fin (ivvAnnualReturnPct I),
       investReturnPct = Fin (investReturnPct I),
       returnAdjustPct = Fin (returnAdjustPct I),
       investTaxDragPct = Fin (investTaxDragPct I),
       investShareA = Fin (investShareA I),
       investShareB = Fin (investShareB I),
       investShareC = Fin (investShareC I),
       keepPropertyTaxAnnual = Fin (keepPropertyTaxAnnual I),
       keepInsuranceAnnual = Fin (keepInsuranceAnnual I),
       keepHoaMonthly = Fin (keepHoaMonthly I),
       keepExtraMaintAnnual = Fin (keepExtraMaintAnnual I),
       years = Fin (years I),
       discountRatePct = Fin (discountRatePct I) \<rparr>"

definition fin_snapshot :: "YearlySnapshot \<Rightarrow> js_YearlySnapshot" where
  "fin_snapshot x =
     \<lparr> year = year x,
       netWorthA = Fin (netWorthA x),
       netWorthB = Fin (netWorthB x),
       netWorthC = Fin (netWorthC x),
       netWorthD = Fin (netWorthD x),
       investA = Fin (investA x),
       investB = Fin (investB x),
       investC = Fin (investC x),
       outA = Fin (outA x),
       homeCostsB = Fin (homeCostsB x),
       outC = Fin (outC x),
       outD = Fin (outD x),
       remainingPrincipal = Fin (remainingPrincipal x),
       homeValueB = Fin (homeValueB x),
       keepHomeValue = Fin (keepHomeValue x) \<rparr>"

definition fin_vars :: "loop_vars \<Rightarrow> js_loop_vars" where
  "fin_vars s =
     \<lparr> v_investA = Fin (v_investA s),
       v_investB = Fin (v_investB s),
       v_investC = Fin (v_investC s),
       v_rent = Fin (v_rent s),
       v_storage = Fin (v_storage s),
       v_remainingPrincipal = Fin (v_remainingPrincipal s),
       v_homeValueB = Fin (v_homeValueB s),
       v_keepHomeValue = Fin (v_keepHomeValue s),
       v_yearlyData = map fin_snapshot (v_yearlyData s),
       v_cashflowsA = map Fin (v_cashflowsA s),
       v_cashflowsB = map Fin (v_cashflowsB s),
       v_cashflowsC = map Fin (v_cashflowsC s),
       v_cashflowsD = map Fin (v_cashflowsD s) \<rparr>"

definition fin_label :: "real label \<Rightarrow> number label" where
  "fin_label k = map_label Fin k"

definition fin_result :: "ScenarioResult \<Rightarrow> js_ScenarioResult" where
  "fin_result r =
     \<lparr> key = fin_label (key r), res_npv = Fin (res_npv r), terminal = Fin (terminal r),
       color = color r, stroke = stroke r \<rparr>"

definition fin_output :: "Output \<Rightarrow> js_Output" where
  "fin_output out =
     \<lparr> out_netProceeds = Fin (out_netProceeds out),
       yearlyData = map fin_snapshot (yearlyData out),
       results = map fin_result (results out) \<rparr>"

text \<open>
  Where \<open>Math.pow\<close> of finite arguments is finite, and where the mortgage payment
  divides by nothing zero.
\<close>

definition pow_finite :: "real \<Rightarrow> real \<Rightarrow> bool" where
  "pow_finite x y = ((x = 0 \<longrightarrow> 0 \<le> y) \<and> (x < 0 \<longrightarrow> whole y))"

definition payment_finite :: "real \<Rightarrow> real \<Rightarrow> bool" where
  "payment_finite annualRatePct yrs =
     (let r = pct annualRatePct / 12;
          n = yrs * 12
      in if r = 0 then n \<noteq> 0 else pow_finite (1 + r) (- n) \<and> pow (1 + r) (- n) \<noteq> 1)"

text \<open>
  The number of passes of the yearly loop on JavaScript numbers when it returns: none
  for a horizon that is \<open>NaN\<close> or \<open>-Infinity\<close> (for \<open>Infinity\<close> the loop does not
  return, and the value here is not used).
\<close>

definition js_horizon :: "js_Inputs \<Rightarrow> nat" where
  "js_horizon I = (case years I of Fin x \<Rightarrow> nat \<lfloor>x\<rfloor> | _ \<Rightarrow> 0)"

section \<open>Properties of the exact model\<close>

subsection \<open>Exponentiation and discounting\<close>

lemma pow_one: "pow x 1 = x"
  by (simp add: pow_def)

lemma pow_nat: "pow x (real t) = x ^ t"
  by (simp add: pow_def)

lemma pow_pos:
  assumes "0 < x"
  shows "pow x y = x powr y"
proof (cases "y = of_int \<lfloor>y\<rfloor>")
  case True
  have "x powr (of_int \<lfloor>y\<rfloor>) = x powi \<lfloor>y\<rfloor>"
    using assms by (simp add: powr_real_of_int')
  then show ?thesis
    using True by (simp add: pow_def)
next
  case False
  then show ?thesis by (simp add: pow_def)
qed

lemma growAnnual_one: "growAnnual v p 1 = v * (1 + pct p)"
  by (simp add: growAnnual_def pow_one)

lemma npv_foldl:
  "foldl (\<lambda>acc (cf, t). acc + cf / pow b (real t)) a (zip cfs [0..<length cfs])
     = a + (\<Sum>t<length cfs. cfs ! t / b ^ t)"
proof (induction cfs rule: rev_induct)
  case Nil
  show ?case by simp
next
  case (snoc x xs)
  have "(\<Sum>t<length xs. (xs @ [x]) ! t / b ^ t) = (\<Sum>t<length xs. xs ! t / b ^ t)"
    by (rule sum.cong) (simp_all add: nth_append)
  then show ?case
    using snoc by (simp add: pow_nat nth_append)
qed

lemma npv_sum: "npv cfs d = (\<Sum>t<length cfs. cfs ! t / (1 + pct d) ^ t)"
  by (simp add: npv_def npv_foldl)

subsection \<open>The yearly loop as an iteration\<close>

lemma nat_less_int: "0 < y \<Longrightarrow> (z::int) < int y \<Longrightarrow> nat z < y"
  by linarith

lemma year_loop_fold:
  "0 < y \<Longrightarrow> year_loop I y s = fold (year_body I) [y..<Suc (horizon I)] s"
proof (induction I y s rule: year_loop.induct)
  case (1 I y s)
  note pos = \<open>0 < y\<close>
  show ?case
  proof (cases "real y \<le> years I")
    case True
    then have "int y \<le> \<lfloor>years I\<rfloor>"
      by (simp add: le_floor_iff)
    then have le: "y < Suc (horizon I)"
      unfolding horizon_def by linarith
    have "year_loop I y s = year_loop I (Suc y) (year_body I y s)"
      using True by (simp add: year_loop.simps [of I y])
    also have "\<dots> = fold (year_body I) [Suc y..<Suc (horizon I)] (year_body I y s)"
      using "1.IH" True by simp
    also have "\<dots> = fold (year_body I) [y..<Suc (horizon I)] s"
      by (simp only: upt_conv_Cons [OF le] fold_simps)
    finally show ?thesis .
  next
    case False
    then have "\<not> int y \<le> \<lfloor>years I\<rfloor>"
      by (simp add: le_floor_iff)
    then have "horizon I < y"
      unfolding horizon_def using nat_less_int [OF pos] by simp
    then show ?thesis
      using False by (simp add: year_loop.simps [of I y])
  qed
qed

lemma final_vars_after: "final_vars I = vars_after I (horizon I)"
  by (simp add: final_vars_def vars_after_def year_loop_fold)

lemma vars_after_0: "vars_after I 0 = init_vars I"
  by (simp add: vars_after_def)

lemma vars_after_Suc: "vars_after I (Suc k) = year_body I (Suc k) (vars_after I k)"
  by (simp add: vars_after_def)

subsection \<open>What one pass of the yearly loop does\<close>

lemma yearlyData_body: "v_yearlyData (year_body I y s) = v_yearlyData s @ [pushed I y s]"
  by (simp add: pushed_def year_body_def Let_def)

lemma length_yearlyData: "length (v_yearlyData (vars_after I k)) = k"
  by (induction k) (simp_all add: vars_after_0 vars_after_Suc init_vars_def yearlyData_body)

lemma yearlyData_nth:
  "y < k \<Longrightarrow> v_yearlyData (vars_after I k) ! y = pushed I (Suc y) (vars_after I y)"
proof (induction k)
  case 0
  then show ?case by simp
next
  case (Suc k)
  show ?case
  proof (cases "y = k")
    case True
    then show ?thesis
      by (simp add: vars_after_Suc yearlyData_body nth_append length_yearlyData)
  next
    case False
    with Suc.prems have "y < k" by simp
    then show ?thesis
      using Suc.IH by (simp add: vars_after_Suc yearlyData_body nth_append length_yearlyData)
  qed
qed

lemma investA_after:
  "v_investA (vars_after I k)
     = netProceeds I * pct (investShareA I) * (1 + pct (investNetRate I)) ^ k"
  by (induction k)
    (simp_all add: vars_after_0 vars_after_Suc init_vars_def year_body_def Let_def growAnnual_one)

lemma investC_after:
  "v_investC (vars_after I k)
     = netProceeds I * pct (investShareC I) * (1 + pct (investNetRate I)) ^ k"
  by (induction k)
    (simp_all add: vars_after_0 vars_after_Suc init_vars_def year_body_def Let_def growAnnual_one)

lemma rent_after:
  "v_rent (vars_after I k) = monthlyRent I * (1 + pct (rentAnnualInflationPct I)) ^ k"
  by (induction k)
    (simp_all add: vars_after_0 vars_after_Suc init_vars_def year_body_def Let_def)

lemma storage_after:
  "v_storage (vars_after I k) = storageMonthly I * (1 + pct (storageAnnualInflationPct I)) ^ k"
  by (induction k)
    (simp_all add: vars_after_0 vars_after_Suc init_vars_def year_body_def Let_def)

lemma keepHomeValue_after:
  "v_keepHomeValue (vars_after I k)
     = currentHomeValue I * (1 + pct (currentHomeAppreciationPct I)) ^ k"
  by (induction k)
    (simp_all add: vars_after_0 vars_after_Suc init_vars_def year_body_def Let_def growAnnual_one)

lemma pushed_year: "year (pushed I y s) = y"
  by (simp add: pushed_def year_body_def Let_def)

lemma pushed_investA: "investA (pushed I y s) = v_investA (year_body I y s)"
  by (simp add: pushed_def year_body_def Let_def)

lemma pushed_investC: "investC (pushed I y s) = v_investC (year_body I y s)"
  by (simp add: pushed_def year_body_def Let_def)

lemma pushed_outA:
  "outA (pushed I y s) = v_rent s * 12 + (if includeStorage I then v_storage s else 0) * 12"
  by (simp add: pushed_def year_body_def Let_def)

lemma pushed_outC: "outC (pushed I y s) = outA (pushed I y s)"
  by (simp add: pushed_def year_body_def Let_def)

lemma pushed_netWorthA:
  "netWorthA (pushed I y s) = investA (pushed I y s) - outA (pushed I y s)"
  by (simp add: pushed_def year_body_def Let_def)

lemma pushed_netWorthC:
  "netWorthC (pushed I y s) = investC (pushed I y s) + cashC I - outC (pushed I y s)"
  by (simp add: pushed_def year_body_def Let_def)

lemma cashflowsA_body: "v_cashflowsA (year_body I y s) = v_cashflowsA s @ [- outA (pushed I y s)]"
  by (simp add: pushed_def year_body_def Let_def)

lemma cashflowsB_body:
  "v_cashflowsB (year_body I y s) = v_cashflowsB s @ [- homeCostsB (pushed I y s)]"
  by (simp add: pushed_def year_body_def Let_def)

lemma cashflowsC_body: "v_cashflowsC (year_body I y s) = v_cashflowsC s @ [- outC (pushed I y s)]"
  by (simp add: pushed_def year_body_def Let_def)

lemma cashflowsD_body: "v_cashflowsD (year_body I y s) = v_cashflowsD s @ [- outD (pushed I y s)]"
  by (simp add: pushed_def year_body_def Let_def)

lemma cashflowsA_after:
  "v_cashflowsA (vars_after I k) = 0 # map (\<lambda>x. - outA x) (v_yearlyData (vars_after I k))"
  by (induction k)
    (simp_all add: vars_after_0 vars_after_Suc init_vars_def cashflowsA_body yearlyData_body)

lemma cashflowsB_after:
  "v_cashflowsB (vars_after I k)
     = (- (smallerHomePrice I * pct (smallerHomeClosingPct I)) - dpB I)
         # map (\<lambda>x. - homeCostsB x) (v_yearlyData (vars_after I k))"
  by (induction k)
    (simp_all add: vars_after_0 vars_after_Suc init_vars_def cashflowsB_body yearlyData_body)

lemma cashflowsC_after:
  "v_cashflowsC (vars_after I k) = 0 # map (\<lambda>x. - outC x) (v_yearlyData (vars_after I k))"
  by (induction k)
    (simp_all add: vars_after_0 vars_after_Suc init_vars_def cashflowsC_body yearlyData_body)

lemma cashflowsD_after:
  "v_cashflowsD (vars_after I k) = 0 # map (\<lambda>x. - outD x) (v_yearlyData (vars_after I k))"
  by (induction k)
    (simp_all add: vars_after_0 vars_after_Suc init_vars_def cashflowsD_body yearlyData_body)

subsection \<open>The output of \<open>simulate\<close>\<close>

lemma simulate_yearlyData: "yearlyData (simulate I) = v_yearlyData (vars_after I (horizon I))"
  by (simp add: simulate_def Let_def final_vars_after)

lemma simulate_length: "length (yearlyData (simulate I)) = horizon I"
  by (simp add: simulate_yearlyData length_yearlyData)

lemma simulate_nth:
  "k < horizon I \<Longrightarrow> yearlyData (simulate I) ! k = pushed I (Suc k) (vars_after I k)"
  by (simp add: simulate_yearlyData yearlyData_nth)

lemma horizon_default: "horizon default_inputs = 15"
  by (simp add: horizon_def default_inputs_def)

subsection \<open>Sale proceeds, invested balances and rent\<close>

text \<open>
  C5: the net sale proceeds are the equity before tax less the capital-gains tax on its
  positive part; with no mortgage, no selling costs and no tax they are the sale price,
  and for a price of 1,300,000, no mortgage, 6% selling costs and no tax they are
  1,222,000.
\<close>

theorem C5_net_proceeds:
  "out_netProceeds (simulate I)
     = (currentHomeValue I - currentMortgageBalance I
          - currentHomeValue I * (sellingCostsPct I / 100))
       - max 0 (currentHomeValue I - currentMortgageBalance I
          - currentHomeValue I * (sellingCostsPct I / 100)) * (capGainsTaxPct I / 100)
   \<and> (currentMortgageBalance I = 0 \<and> sellingCostsPct I = 0 \<and> capGainsTaxPct I = 0
        \<longrightarrow> out_netProceeds (simulate I) = currentHomeValue I)
   \<and> (currentHomeValue I = 1300000 \<and> currentMortgageBalance I = 0
        \<and> sellingCostsPct I = 6 \<and> capGainsTaxPct I = 0
        \<longrightarrow> out_netProceeds (simulate I) = 1222000)"
  by (simp add: simulate_def Let_def netProceeds_def capGainsTax_def equityBeforeTax_def
      sellingCosts_def pct_def)

theorem C5_net_proceeds_witness:
  "currentHomeValue default_inputs = 1300000 \<and> currentMortgageBalance default_inputs = 0
   \<and> sellingCostsPct default_inputs = 6 \<and> capGainsTaxPct default_inputs = 0
   \<and> out_netProceeds (simulate default_inputs) = 1222000
   \<and> sellingCostsPct (default_inputs\<lparr>sellingCostsPct := 0\<rparr>) = 0
   \<and> out_netProceeds (simulate (default_inputs\<lparr>sellingCostsPct := 0\<rparr>)) = 1300000"
  using C5_net_proceeds [of default_inputs]
    C5_net_proceeds [of "default_inputs\<lparr>sellingCostsPct := 0\<rparr>"]
  by (simp add: default_inputs_def)

text \<open>
  C6: in year \<open>t\<close> of \<open>1..N\<close> the invested balance of scenario A is the invested share
  of the net proceeds compounded \<open>t\<close> times at the net return, and likewise for
  scenario C with its own share; the year's outflow is taken off the net-worth figure
  only (for C together with the cash held back), never off the balance.
\<close>

theorem C6_invested_balance:
  assumes "1 \<le> t" and "t \<le> horizon I"
  shows "year (yearlyData (simulate I) ! (t - 1)) = t
    \<and> investA (yearlyData (simulate I) ! (t - 1))
        = netProceeds I * (investShareA I / 100) * (1 + investNetRate I / 100) ^ t
    \<and> investC (yearlyData (simulate I) ! (t - 1))
        = netProceeds I * (investShareC I / 100) * (1 + investNetRate I / 100) ^ t
    \<and> netWorthA (yearlyData (simulate I) ! (t - 1))
        = investA (yearlyData (simulate I) ! (t - 1)) - outA (yearlyData (simulate I) ! (t - 1))
    \<and> netWorthC (yearlyData (simulate I) ! (t - 1))
        = investC (yearlyData (simulate I) ! (t - 1)) + cashC I
            - outC (yearlyData (simulate I) ! (t - 1))"
proof -
  from assms obtain k where t: "t = Suc k" and k: "k < horizon I"
    by (cases t) simp_all
  have "investA (pushed I (Suc k) (vars_after I k)) = v_investA (vars_after I (Suc k))"
    by (simp add: pushed_investA vars_after_Suc)
  moreover have "investC (pushed I (Suc k) (vars_after I k)) = v_investC (vars_after I (Suc k))"
    by (simp add: pushed_investC vars_after_Suc)
  ultimately show ?thesis
    unfolding t
    by (simp add: simulate_nth [OF k] pushed_year pushed_netWorthA pushed_netWorthC
        investA_after investC_after pct_def)
qed

theorem C6_invested_balance_witness:
  "(1::nat) \<le> 2 \<and> 2 \<le> horizon default_inputs
   \<and> investA (yearlyData (simulate default_inputs) ! 1) = 5648695 / 4
   \<and> investC (yearlyData (simulate default_inputs) ! 1) = 5648695 / 8"
  using C6_invested_balance [of 2 default_inputs]
  by (simp add: horizon_default)
    (simp add: default_inputs_def netProceeds_def capGainsTax_def equityBeforeTax_def
      sellingCosts_def pct_def investNetRate_def investGrossRate_def baseline_def power2_eq_square)

text \<open>
  C7: in year \<open>t\<close> of \<open>1..N\<close> the rent and storage outflow of scenarios A and C is
  twelve monthly rents inflated \<open>t - 1\<close> times plus, when storage is included, twelve
  monthly storage fees inflated \<open>t - 1\<close> times: year 1 pays the configured figures.
\<close>

theorem C7_rent_outflow:
  assumes "1 \<le> t" and "t \<le> horizon I"
  shows "outA (yearlyData (simulate I) ! (t - 1))
      = 12 * monthlyRent I * (1 + rentAnnualInflationPct I / 100) ^ (t - 1)
        + (if includeStorage I
           then 12 * storageMonthly I * (1 + storageAnnualInflationPct I / 100) ^ (t - 1)
           else 0)
    \<and> outC (yearlyData (simulate I) ! (t - 1)) = outA (yearlyData (simulate I) ! (t - 1))"
proof -
  from assms obtain k where t: "t = Suc k" and k: "k < horizon I"
    by (cases t) simp_all
  show ?thesis
    unfolding t
    by (simp add: simulate_nth [OF k] pushed_outA pushed_outC rent_after storage_after pct_def)
qed

theorem C7_rent_outflow_witness:
  "(1::nat) \<le> 2 \<and> 2 \<le> horizon default_inputs
   \<and> outA (yearlyData (simulate default_inputs) ! 0) = 58200
   \<and> outA (yearlyData (simulate default_inputs) ! 1) = 59946
   \<and> outC (yearlyData (simulate default_inputs) ! 1) = 59946"
  using C7_rent_outflow [of 1 default_inputs] C7_rent_outflow [of 2 default_inputs]
  by (simp add: horizon_default) (simp add: default_inputs_def)

subsection \<open>Net present values\<close>

lemma npv_snoc: "npv (cfs @ [x]) d = npv cfs d + x / (1 + pct d) ^ length cfs"
  by (simp add: npv_sum nth_append)

lemma npv_vector:
  "npv ((up # map g yd) @ [term]) d
     = up + (\<Sum>t = 1..length yd. g (yd ! (t - 1)) / (1 + pct d) ^ t)
         + term / (1 + pct d) ^ (length yd + 1)"
proof -
  have "npv (up # map g yd) d = (\<Sum>t<Suc (length yd). (up # map g yd) ! t / (1 + pct d) ^ t)"
    by (simp add: npv_sum del: sum.lessThan_Suc)
  also have "\<dots> = up + (\<Sum>k<length yd. (up # map g yd) ! Suc k / (1 + pct d) ^ Suc k)"
    by (simp only: sum.lessThan_Suc_shift) simp
  also have "(\<Sum>k<length yd. (up # map g yd) ! Suc k / (1 + pct d) ^ Suc k)
      = (\<Sum>k<length yd. g (yd ! (Suc k - 1)) / (1 + pct d) ^ Suc k)"
    by (rule sum.cong) simp_all
  also have "\<dots> = (\<Sum>t = 1..length yd. g (yd ! (t - 1)) / (1 + pct d) ^ t)"
    by (simp only: sum.atLeast1_atMost_eq One_nat_def)
  finally have body: "npv (up # map g yd) d
      = up + (\<Sum>t = 1..length yd. g (yd ! (t - 1)) / (1 + pct d) ^ t)" .
  have "npv ((up # map g yd) @ [term]) d
      = npv (up # map g yd) d + term / (1 + pct d) ^ length (up # map g yd)"
    by (rule npv_snoc)
  then show ?thesis
    by (simp only: body) simp
qed

lemma simulate_results:
  "results (simulate I) =
     [ \<lparr> key = KeyA (investShareA I),
         res_npv = npv (v_cashflowsA (final_vars I) @ [terminalA (final_vars I)]) (discountRatePct I),
         terminal = terminalA (final_vars I),
         color = ''from-sky-500/20 to-sky-500/5'', stroke = ''#0ea5e9'' \<rparr>,
       \<lparr> key = KeyB (investShareB I),
         res_npv = npv (v_cashflowsB (final_vars I) @ [terminalB (final_vars I)]) (discountRatePct I),
         terminal = terminalB (final_vars I),
         color = ''from-emerald-500/20 to-emerald-500/5'', stroke = ''#10b981'' \<rparr>,
       \<lparr> key = KeyC (investShareC I),
         res_npv = npv (v_cashflowsC (final_vars I) @ [terminalC I (final_vars I)]) (discountRatePct I),
         terminal = terminalC I (final_vars I),
         color = ''from-amber-500/20 to-amber-500/5'', stroke = ''#f59e0b'' \<rparr>,
       \<lparr> key = KeyD,
         res_npv = npv (v_cashflowsD (final_vars I) @ [terminalD (final_vars I)]) (discountRatePct I),
         terminal = terminalD (final_vars I),
         color = ''from-violet-500/20 to-violet-500/5'', stroke = ''#8b5cf6'' \<rparr> ]"
  by (simp add: simulate_def Let_def)

lemma result_A:
  "res_npv (results (simulate I) ! 0)
     = npv (v_cashflowsA (final_vars I) @ [terminal (results (simulate I) ! 0)]) (discountRatePct I)"
  by (simp add: simulate_results)

lemma result_B:
  "res_npv (results (simulate I) ! 1)
     = npv (v_cashflowsB (final_vars I) @ [terminal (results (simulate I) ! 1)]) (discountRatePct I)"
  by (simp add: simulate_results)

lemma result_C:
  "res_npv (results (simulate I) ! 2)
     = npv (v_cashflowsC (final_vars I) @ [terminal (results (simulate I) ! 2)]) (discountRatePct I)"
  by (simp add: simulate_results)

lemma result_D:
  "res_npv (results (simulate I) ! 3)
     = npv (v_cashflowsD (final_vars I) @ [terminal (results (simulate I) ! 3)]) (discountRatePct I)"
  by (simp add: simulate_results)

text \<open>
  C1: every scenario's NPV is the discounted sum of its cash-flow vector: the upfront
  transaction at position 0 (the negated down payment and closing costs for B, zero for
  A, C and D), the negated outflow of year \<open>t\<close> at position \<open>t\<close> of \<open>1..N\<close>, and the
  terminal value at position \<open>N + 1\<close>.
\<close>

theorem C1_npv_discounted_sum:
  "length (yearlyData (simulate I)) = horizon I
   \<and> res_npv (results (simulate I) ! 0)
       = 0 + (\<Sum>t = 1..horizon I.
                - outA (yearlyData (simulate I) ! (t - 1)) / (1 + discountRatePct I / 100) ^ t)
           + terminal (results (simulate I) ! 0) / (1 + discountRatePct I / 100) ^ (horizon I + 1)
   \<and> res_npv (results (simulate I) ! 1)
       = - (dpB I + smallerHomePrice I * (smallerHomeClosingPct I / 100))
           + (\<Sum>t = 1..horizon I.
                - homeCostsB (yearlyData (simulate I) ! (t - 1)) / (1 + discountRatePct I / 100) ^ t)
           + terminal (results (simulate I) ! 1) / (1 + discountRatePct I / 100) ^ (horizon I + 1)
   \<and> res_npv (results (simulate I) ! 2)
       = 0 + (\<Sum>t = 1..horizon I.
                - outC (yearlyData (simulate I) ! (t - 1)) / (1 + discountRatePct I / 100) ^ t)
           + terminal (results (simulate I) ! 2) / (1 + discountRatePct I / 100) ^ (horizon I + 1)
   \<and> res_npv (results (simulate I) ! 3)
       = 0 + (\<Sum>t = 1..horizon I.
                - outD (yearlyData (simulate I) ! (t - 1)) / (1 + discountRatePct I / 100) ^ t)
           + terminal (results (simulate I) ! 3) / (1 + discountRatePct I / 100) ^ (horizon I + 1)"
proof -
  let ?yd = "yearlyData (simulate I)"
  have len: "length ?yd = horizon I"
    by (rule simulate_length)
  have up: "- (smallerHomePrice I * pct (smallerHomeClosingPct I)) - dpB I
      = - (dpB I + smallerHomePrice I * (smallerHomeClosingPct I / 100))"
    by (simp add: pct_def)
  have a: "v_cashflowsA (final_vars I) = 0 # map (\<lambda>x. - outA x) ?yd"
    using cashflowsA_after [of I "horizon I"] by (simp add: final_vars_after simulate_yearlyData)
  have b: "v_cashflowsB (final_vars I)
      = (- (dpB I + smallerHomePrice I * (smallerHomeClosingPct I / 100)))
          # map (\<lambda>x. - homeCostsB x) ?yd"
    using cashflowsB_after [of I "horizon I"]
    by (simp only: final_vars_after simulate_yearlyData up)
  have c: "v_cashflowsC (final_vars I) = 0 # map (\<lambda>x. - outC x) ?yd"
    using cashflowsC_after [of I "horizon I"] by (simp add: final_vars_after simulate_yearlyData)
  have d: "v_cashflowsD (final_vars I) = 0 # map (\<lambda>x. - outD x) ?yd"
    using cashflowsD_after [of I "horizon I"] by (simp add: final_vars_after simulate_yearlyData)
  have r: "pct (discountRatePct I) = discountRatePct I / 100"
    by (simp add: pct_def)
  have "res_npv (results (simulate I) ! 0)
       = 0 + (\<Sum>t = 1..horizon I.
                - outA (?yd ! (t - 1)) / (1 + discountRatePct I / 100) ^ t)
           + terminal (results (simulate I) ! 0) / (1 + discountRatePct I / 100) ^ (horizon I + 1)"
    by (simp only: result_A a npv_vector r len)
  moreover have "res_npv (results (simulate I) ! 1)
       = - (dpB I + smallerHomePrice I * (smallerHomeClosingPct I / 100))
           + (\<Sum>t = 1..horizon I.
                - homeCostsB (?yd ! (t - 1)) / (1 + discountRatePct I / 100) ^ t)
           + terminal (results (simulate I) ! 1) / (1 + discountRatePct I / 100) ^ (horizon I + 1)"
    by (simp only: result_B b npv_vector r len)
  moreover have "res_npv (results (simulate I) ! 2)
       = 0 + (\<Sum>t = 1..horizon I.
                - outC (?yd ! (t - 1)) / (1 + discountRatePct I / 100) ^ t)
           + terminal (results (simulate I) ! 2) / (1 + discountRatePct I / 100) ^ (horizon I + 1)"
    by (simp only: result_C c npv_vector r len)
  moreover have "res_npv (results (simulate I) ! 3)
       = 0 + (\<Sum>t = 1..horizon I.
                - outD (?yd ! (t - 1)) / (1 + discountRatePct I / 100) ^ t)
           + terminal (results (simulate I) ! 3) / (1 + discountRatePct I / 100) ^ (horizon I + 1)"
    by (simp only: result_D d npv_vector r len)
  ultimately show ?thesis
    using len by blast
qed

subsection \<open>Scenario A against scenario C\<close>












subsection \<open>A zero-length horizon\<close>

lemma zero_horizon: "years I < 1 \<Longrightarrow> horizon I = 0"
  by (simp add: horizon_def)

subsection \<open>Amortization\<close>

lemma pow_neg_nat: "pow x (- real m) = 1 / x ^ m"
proof -
  have "- real m = of_int (- int m)"
    by simp
  then have "pow x (- real m) = x powi (- int m)"
    unfolding pow_def by (simp only: floor_of_int) simp
  then show ?thesis
    by (simp add: power_int_minus_divide)
qed

lemma pow_base_one: "pow 1 y = 1"
  by (simp add: pow_def)

lemma annuity_denominator:
  fixes r n :: real
  assumes "0 < r" and "0 < n"
  shows "0 < 1 - (1 + r) powr (- n)" and "1 - (1 + r) powr (- n) \<le> 1"
proof -
  have "(1 + r) powr (- n) < 1"
    by (rule powr_less_one) (use assms in simp_all)
  then show "0 < 1 - (1 + r) powr (- n)"
    by simp
  have "0 \<le> (1 + r) powr (- n)"
    by simp
  then show "1 - (1 + r) powr (- n) \<le> 1"
    by simp
qed

lemma payment_covers_interest:
  assumes "0 \<le> rate" and "0 < yrs" and "0 \<le> P"
  shows "P * (pct rate / 12) \<le> amortizationPayment P rate yrs"
proof (cases "pct rate / 12 = 0")
  case True
  have "0 \<le> P / (yrs * 12)"
    using assms by simp
  then show ?thesis
    using True by (simp add: amortizationPayment_def Let_def)
next
  case False
  define r where "r = pct rate / 12"
  define n where "n = yrs * 12"
  have r: "0 < r"
    using False assms(1) by (simp add: r_def pct_def)
  have n: "0 < n"
    using assms(2) by (simp add: n_def)
  have d: "0 < 1 - (1 + r) powr (- n)" "1 - (1 + r) powr (- n) \<le> 1"
    using annuity_denominator [OF r n] by simp_all
  have "0 \<le> P * r"
    using assms(3) r by simp
  then have "P * r * (1 - (1 + r) powr (- n)) \<le> P * r"
    using d(2) by (simp add: mult_left_le)
  then have "P * r \<le> P * r / (1 - (1 + r) powr (- n))"
    using d(1) by (simp add: pos_le_divide_eq)
  moreover have "amortizationPayment P rate yrs = P * r / (1 - (1 + r) powr (- n))"
    using False r by (simp add: amortizationPayment_def Let_def r_def n_def pow_pos)
  ultimately show ?thesis
    by (simp add: r_def)
qed

lemma month_step_range:
  assumes "0 \<le> fst st" and "fst st * rate \<le> payment"
  shows "0 \<le> fst (month_step payment rate st)" and "fst (month_step payment rate st) \<le> fst st"
  using assms by (simp_all add: month_step_def Let_def min_def)

lemma month_step_bounded:
  assumes "0 \<le> rate" and "P * rate \<le> payment" and "0 \<le> fst st" and "fst st \<le> P"
  shows "0 \<le> fst (month_step payment rate st)" and "fst (month_step payment rate st) \<le> fst st"
proof -
  have "fst st * rate \<le> P * rate"
    using assms(1,4) by (rule mult_right_mono [rotated])
  then have "fst st * rate \<le> payment"
    using assms(2) by simp
  then show "0 \<le> fst (month_step payment rate st)"
    and "fst (month_step payment rate st) \<le> fst st"
    using assms(3) by (simp_all add: month_step_range)
qed

lemma month_loop_range:
  assumes "0 \<le> rate" and "P * rate \<le> payment"
  shows "0 \<le> fst st \<Longrightarrow> fst st \<le> P \<Longrightarrow>
    0 \<le> fst (month_loop payment rate j st) \<and> fst (month_loop payment rate j st) \<le> fst st"
proof (induction j arbitrary: st)
  case 0
  then show ?case by simp
next
  case (Suc j)
  let ?st = "month_step payment rate st"
  have s: "0 \<le> fst ?st" "fst ?st \<le> fst st"
    using month_step_bounded [OF assms Suc.prems] by simp_all
  then have "fst ?st \<le> P"
    using Suc.prems(2) by simp
  with Suc.IH [of ?st] s(1)
  have "0 \<le> fst (month_loop payment rate j ?st)"
    and "fst (month_loop payment rate j ?st) \<le> fst ?st"
    by simp_all
  with s show ?case
    by (simp add: Let_def)
qed

lemma month_loop_next:
  assumes "0 \<le> rate" and "P * rate \<le> payment"
  shows "0 \<le> fst st \<Longrightarrow> fst st \<le> P \<Longrightarrow>
    0 \<le> fst (month_loop payment rate (Suc j) st)
    \<and> fst (month_loop payment rate (Suc j) st) \<le> fst (month_loop payment rate j st)"
proof (induction j arbitrary: st)
  case 0
  then show ?case
    using month_step_bounded [OF assms, of st] by (simp add: Let_def)
next
  case (Suc j)
  let ?st = "month_step payment rate st"
  have s: "0 \<le> fst ?st" "fst ?st \<le> fst st"
    using month_step_bounded [OF assms Suc.prems] by simp_all
  then have le: "fst ?st \<le> P"
    using Suc.prems(2) by simp
  show ?case
  proof (cases "fst ?st \<le> 1 / 1000000")
    case True
    have "month_loop payment rate (Suc (Suc j)) st = ?st"
      using True by (simp add: Let_def)
    moreover have "month_loop payment rate (Suc j) st = ?st"
      using True by (simp add: Let_def)
    ultimately show ?thesis
      using s(1) by simp
  next
    case False
    have "month_loop payment rate (Suc (Suc j)) st = month_loop payment rate (Suc j) ?st"
      using False by (simp add: Let_def)
    moreover have "month_loop payment rate (Suc j) st = month_loop payment rate j ?st"
      using False by (simp add: Let_def)
    ultimately show ?thesis
      using Suc.IH [OF s(1) le] by simp
  qed
qed

lemma remainingPrincipal_body:
  "v_remainingPrincipal (year_body I y s)
     = fst (month_loop (mortgagePayment I) (monthlyMortgageRate I) 12 (v_remainingPrincipal s, 0))"
  by (simp add: year_body_def Let_def)

lemma pushed_remainingPrincipal:
  "remainingPrincipal (pushed I y s) = max 0 (v_remainingPrincipal (year_body I y s))"
  by (simp add: pushed_def year_body_def Let_def)

lemma mortgagePrincipalB_nonneg: "0 \<le> mortgagePrincipalB I"
  by (simp add: mortgagePrincipalB_def)

lemma mortgage_covers_interest:
  assumes "0 \<le> mortgageRatePct I" and "0 < mortgageYears I"
  shows "0 \<le> monthlyMortgageRate I"
    and "mortgagePrincipalB I * monthlyMortgageRate I \<le> mortgagePayment I"
proof -
  show "0 \<le> monthlyMortgageRate I"
    using assms(1) by (simp add: monthlyMortgageRate_def pct_def)
  show "mortgagePrincipalB I * monthlyMortgageRate I \<le> mortgagePayment I"
    unfolding monthlyMortgageRate_def mortgagePayment_def
    using assms mortgagePrincipalB_nonneg by (rule payment_covers_interest)
qed

lemma remainingPrincipal_after:
  assumes "0 \<le> mortgageRatePct I" and "0 < mortgageYears I"
  shows "0 \<le> v_remainingPrincipal (vars_after I k)
    \<and> v_remainingPrincipal (vars_after I k) \<le> mortgagePrincipalB I"
proof (induction k)
  case 0
  show ?case
    by (simp add: vars_after_0 init_vars_def mortgagePrincipalB_nonneg)
next
  case (Suc k)
  let ?rp = "v_remainingPrincipal (vars_after I k)"
  have "0 \<le> fst (month_loop (mortgagePayment I) (monthlyMortgageRate I) 12 (?rp, 0))
      \<and> fst (month_loop (mortgagePayment I) (monthlyMortgageRate I) 12 (?rp, 0)) \<le> fst (?rp, 0::real)"
    using Suc by (intro month_loop_range [OF mortgage_covers_interest [OF assms]]) simp_all
  then show ?case
    using Suc by (simp add: vars_after_Suc remainingPrincipal_body)
qed

lemma remainingPrincipal_Suc:
  assumes "0 \<le> mortgageRatePct I" and "0 < mortgageYears I"
  shows "v_remainingPrincipal (vars_after I (Suc k)) \<le> v_remainingPrincipal (vars_after I k)"
proof -
  let ?rp = "v_remainingPrincipal (vars_after I k)"
  have "0 \<le> fst (month_loop (mortgagePayment I) (monthlyMortgageRate I) 12 (?rp, 0))
      \<and> fst (month_loop (mortgagePayment I) (monthlyMortgageRate I) 12 (?rp, 0)) \<le> fst (?rp, 0::real)"
    using remainingPrincipal_after [OF assms, of k]
    by (intro month_loop_range [OF mortgage_covers_interest [OF assms]]) simp_all
  then show ?thesis
    by (simp add: vars_after_Suc remainingPrincipal_body)
qed

lemma snapshot_remainingPrincipal:
  assumes "0 \<le> mortgageRatePct I" and "0 < mortgageYears I" and "t < horizon I"
  shows "remainingPrincipal (yearlyData (simulate I) ! t)
    = v_remainingPrincipal (vars_after I (Suc t))"
  using remainingPrincipal_after [OF assms(1,2), of "Suc t"]
  by (simp add: simulate_nth [OF assms(3)] pushed_remainingPrincipal vars_after_Suc)


text \<open>
  C4: for a non-negative mortgage rate and a positive term, the remaining principal of
  scenario B never goes below zero and never rises: not in a monthly step taken from a
  balance between zero and the initial principal, not from one month to the next of any
  year of the run, not from one year's end to the next, and so not along the yearly
  snapshots, which record these balances.
\<close>

theorem C4_principal_monotone:
  assumes "0 \<le> mortgageRatePct I" and "0 < mortgageYears I"
  shows "(0 \<le> rp \<and> rp \<le> mortgagePrincipalB I \<longrightarrow>
        0 \<le> fst (month_step (mortgagePayment I) (monthlyMortgageRate I) (rp, ip))
        \<and> fst (month_step (mortgagePayment I) (monthlyMortgageRate I) (rp, ip)) \<le> rp)
    \<and> 0 \<le> fst (month_loop (mortgagePayment I) (monthlyMortgageRate I) (Suc j)
              (v_remainingPrincipal (vars_after I k), 0))
    \<and> fst (month_loop (mortgagePayment I) (monthlyMortgageRate I) (Suc j)
              (v_remainingPrincipal (vars_after I k), 0))
        \<le> fst (month_loop (mortgagePayment I) (monthlyMortgageRate I) j
              (v_remainingPrincipal (vars_after I k), 0))
    \<and> v_remainingPrincipal (vars_after I (Suc k))
        = fst (month_loop (mortgagePayment I) (monthlyMortgageRate I) 12
              (v_remainingPrincipal (vars_after I k), 0))
    \<and> 0 \<le> v_remainingPrincipal (vars_after I k)
    \<and> v_remainingPrincipal (vars_after I k) \<le> mortgagePrincipalB I
    \<and> v_remainingPrincipal (vars_after I (Suc k)) \<le> v_remainingPrincipal (vars_after I k)
    \<and> (t < horizon I \<longrightarrow>
          remainingPrincipal (yearlyData (simulate I) ! t)
            = v_remainingPrincipal (vars_after I (Suc t))
          \<and> 0 \<le> remainingPrincipal (yearlyData (simulate I) ! t)
          \<and> remainingPrincipal (yearlyData (simulate I) ! t) \<le> mortgagePrincipalB I)
    \<and> (Suc t < horizon I \<longrightarrow>
          remainingPrincipal (yearlyData (simulate I) ! Suc t)
            \<le> remainingPrincipal (yearlyData (simulate I) ! t))"
proof -
  note cover = mortgage_covers_interest [OF assms]
  note range = remainingPrincipal_after [OF assms]
  have step: "0 \<le> rp \<and> rp \<le> mortgagePrincipalB I \<longrightarrow>
        0 \<le> fst (month_step (mortgagePayment I) (monthlyMortgageRate I) (rp, ip))
        \<and> fst (month_step (mortgagePayment I) (monthlyMortgageRate I) (rp, ip)) \<le> rp"
    using month_step_bounded [OF cover, of "(rp, ip)"] by simp
  have months: "0 \<le> fst (month_loop (mortgagePayment I) (monthlyMortgageRate I) (Suc j)
              (v_remainingPrincipal (vars_after I k), 0))
    \<and> fst (month_loop (mortgagePayment I) (monthlyMortgageRate I) (Suc j)
              (v_remainingPrincipal (vars_after I k), 0))
        \<le> fst (month_loop (mortgagePayment I) (monthlyMortgageRate I) j
              (v_remainingPrincipal (vars_after I k), 0))"
    using range [of k] by (intro month_loop_next [OF cover]) simp_all
  have year: "v_remainingPrincipal (vars_after I (Suc k))
        = fst (month_loop (mortgagePayment I) (monthlyMortgageRate I) 12
              (v_remainingPrincipal (vars_after I k), 0))"
    by (simp add: vars_after_Suc remainingPrincipal_body)
  have snap: "t < horizon I \<longrightarrow>
          remainingPrincipal (yearlyData (simulate I) ! t)
            = v_remainingPrincipal (vars_after I (Suc t))
          \<and> 0 \<le> remainingPrincipal (yearlyData (simulate I) ! t)
          \<and> remainingPrincipal (yearlyData (simulate I) ! t) \<le> mortgagePrincipalB I"
    using range [of "Suc t"] by (simp add: snapshot_remainingPrincipal [OF assms])
  have mono: "Suc t < horizon I \<longrightarrow>
          remainingPrincipal (yearlyData (simulate I) ! Suc t)
            \<le> remainingPrincipal (yearlyData (simulate I) ! t)"
    using remainingPrincipal_Suc [OF assms, of "Suc t"]
    by (simp add: snapshot_remainingPrincipal [OF assms])
  from step months year range [of k] remainingPrincipal_Suc [OF assms, of k] snap mono
  show ?thesis
    by blast
qed

theorem C4_principal_monotone_witness:
  "0 \<le> mortgageRatePct default_inputs \<and> 0 < mortgageYears default_inputs
   \<and> Suc 0 < horizon default_inputs
   \<and> mortgagePrincipalB default_inputs = 89000
   \<and> 0 \<le> remainingPrincipal (yearlyData (simulate default_inputs) ! 0)
   \<and> remainingPrincipal (yearlyData (simulate default_inputs) ! 0) \<le> 89000
   \<and> remainingPrincipal (yearlyData (simulate default_inputs) ! Suc 0)
       \<le> remainingPrincipal (yearlyData (simulate default_inputs) ! 0)"
proof -
  have r: "0 \<le> mortgageRatePct default_inputs" and y: "0 < mortgageYears default_inputs"
    by (simp_all add: default_inputs_def)
  have h: "0 < horizon default_inputs" "Suc 0 < horizon default_inputs"
    by (simp_all add: horizon_default)
  have p: "mortgagePrincipalB default_inputs = 89000"
    by (simp add: default_inputs_def mortgagePrincipalB_def dpB_def netProceeds_def
        capGainsTax_def equityBeforeTax_def sellingCosts_def pct_def)
  from C4_principal_monotone [OF r y, of _ _ _ _ 0] h
  have "0 \<le> remainingPrincipal (yearlyData (simulate default_inputs) ! 0)
    \<and> remainingPrincipal (yearlyData (simulate default_inputs) ! 0)
        \<le> mortgagePrincipalB default_inputs
    \<and> remainingPrincipal (yearlyData (simulate default_inputs) ! Suc 0)
        \<le> remainingPrincipal (yearlyData (simulate default_inputs) ! 0)"
    by blast
  with r y h p show ?thesis
    by simp
qed

lemma length_results: "length (results (simulate I)) = 4"
  by (simp add: simulate_results)

subsection \<open>Scenario D depends on the keep-home inputs only\<close>

lemma pushed_outD:
  "outD (pushed I y s)
     = keepPropertyTaxAnnual I + keepInsuranceAnnual I + keepHoaMonthly I * 12
         + keepExtraMaintAnnual I"
  by (simp add: pushed_def year_body_def Let_def)

lemma pushed_keepHomeValue:
  "keepHomeValue (pushed I y s) = v_keepHomeValue s * (1 + pct (currentHomeAppreciationPct I))"
  by (simp add: pushed_def year_body_def Let_def growAnnual_one)

lemma pushed_netWorthD:
  "netWorthD (pushed I y s) = keepHomeValue (pushed I y s) - outD (pushed I y s)"
  by (simp add: pushed_def year_body_def Let_def)

lemma at_last_map: "at_last f xs = (if xs = [] then 0 else last (map f xs))"
  by (cases xs) (simp_all add: at_last_def last_map)

lemma at_last_cong: "map f xs = map f ys \<Longrightarrow> at_last f xs = at_last f ys"
  by (auto simp: at_last_map)

lemma scenario_D_snapshot:
  assumes "t < horizon I"
  shows "year (yearlyData (simulate I) ! t) = Suc t"
    and "outD (yearlyData (simulate I) ! t)
      = keepPropertyTaxAnnual I + keepInsuranceAnnual I + keepHoaMonthly I * 12
          + keepExtraMaintAnnual I"
    and "keepHomeValue (yearlyData (simulate I) ! t)
      = currentHomeValue I * (1 + pct (currentHomeAppreciationPct I)) ^ Suc t"
    and "netWorthD (yearlyData (simulate I) ! t)
      = currentHomeValue I * (1 + pct (currentHomeAppreciationPct I)) ^ Suc t
          - (keepPropertyTaxAnnual I + keepInsuranceAnnual I + keepHoaMonthly I * 12
              + keepExtraMaintAnnual I)"
  by (simp_all add: simulate_nth [OF assms] pushed_year pushed_outD pushed_keepHomeValue
      pushed_netWorthD keepHomeValue_after)

lemma scenario_D_maps:
  assumes "currentHomeValue I = currentHomeValue I'"
    and "currentHomeAppreciationPct I = currentHomeAppreciationPct I'"
    and "keepPropertyTaxAnnual I = keepPropertyTaxAnnual I'"
    and "keepInsuranceAnnual I = keepInsuranceAnnual I'"
    and "keepHoaMonthly I = keepHoaMonthly I'"
    and "keepExtraMaintAnnual I = keepExtraMaintAnnual I'"
    and "years I = years I'"
  shows "map year (yearlyData (simulate I)) = map year (yearlyData (simulate I'))"
    and "map outD (yearlyData (simulate I)) = map outD (yearlyData (simulate I'))"
    and "map keepHomeValue (yearlyData (simulate I)) = map keepHomeValue (yearlyData (simulate I'))"
    and "map netWorthD (yearlyData (simulate I)) = map netWorthD (yearlyData (simulate I'))"
proof -
  have h: "horizon I = horizon I'"
    using assms(7) by (simp add: horizon_def)
  show "map year (yearlyData (simulate I)) = map year (yearlyData (simulate I'))"
    by (rule nth_equalityI) (simp_all add: simulate_length h scenario_D_snapshot)
  show "map outD (yearlyData (simulate I)) = map outD (yearlyData (simulate I'))"
    using assms by (intro nth_equalityI) (simp_all add: simulate_length h scenario_D_snapshot)
  show "map keepHomeValue (yearlyData (simulate I)) = map keepHomeValue (yearlyData (simulate I'))"
    using assms by (intro nth_equalityI) (simp_all add: simulate_length h scenario_D_snapshot)
  show "map netWorthD (yearlyData (simulate I)) = map netWorthD (yearlyData (simulate I'))"
    using assms by (intro nth_equalityI) (simp_all add: simulate_length h scenario_D_snapshot)
qed

lemma result_D_full:
  "results (simulate I) ! 3 =
     \<lparr> key = KeyD,
       res_npv = npv ((0 # map (\<lambda>x. - x) (map outD (yearlyData (simulate I))))
                   @ [at_last keepHomeValue (yearlyData (simulate I))]) (discountRatePct I),
       terminal = at_last keepHomeValue (yearlyData (simulate I)),
       color = ''from-violet-500/20 to-violet-500/5'', stroke = ''#8b5cf6'' \<rparr>"
proof -
  have "v_cashflowsD (final_vars I) = 0 # map (\<lambda>x. - x) (map outD (yearlyData (simulate I)))"
    using cashflowsD_after [of I "horizon I"]
    by (simp add: final_vars_after simulate_yearlyData comp_def)
  moreover have "terminalD (final_vars I) = at_last keepHomeValue (yearlyData (simulate I))"
    by (simp add: terminalD_def final_vars_after simulate_yearlyData)
  ultimately show ?thesis
    by (simp add: simulate_results)
qed

text \<open>
  C10: two ParameterSets that agree on the value and appreciation of the current home,
  its four carrying costs, the horizon and the discount rate give the same scenario-D
  result and, year by year, the same outflow, home value and net worth of scenario D,
  whatever their other fields are.
\<close>

theorem C10_scenario_D_independent:
  assumes "currentHomeValue I = currentHomeValue I'"
    and "currentHomeAppreciationPct I = currentHomeAppreciationPct I'"
    and "keepPropertyTaxAnnual I = keepPropertyTaxAnnual I'"
    and "keepInsuranceAnnual I = keepInsuranceAnnual I'"
    and "keepHoaMonthly I = keepHoaMonthly I'"
    and "keepExtraMaintAnnual I = keepExtraMaintAnnual I'"
    and "years I = years I'"
    and "discountRatePct I = discountRatePct I'"
  shows "results (simulate I) ! 3 = results (simulate I') ! 3
    \<and> map year (yearlyData (simulate I)) = map year (yearlyData (simulate I'))
    \<and> map outD (yearlyData (simulate I)) = map outD (yearlyData (simulate I'))
    \<and> map netWorthD (yearlyData (simulate I)) = map netWorthD (yearlyData (simulate I'))
    \<and> map keepHomeValue (yearlyData (simulate I)) = map keepHomeValue (yearlyData (simulate I'))"
proof -
  note maps = scenario_D_maps [OF assms(1-7)]
  have "at_last keepHomeValue (yearlyData (simulate I))
      = at_last keepHomeValue (yearlyData (simulate I'))"
    using maps(3) by (rule at_last_cong)
  then have "results (simulate I) ! 3 = results (simulate I') ! 3"
    by (simp only: result_D_full maps(2) assms(8))
  with maps show ?thesis
    by blast
qed

theorem C10_scenario_D_independent_witness:
  "monthlyRent (default_inputs\<lparr>currentMortgageBalance := 200000, smallerHomePrice := 500000,
       mortgageRatePct := 4, monthlyRent := 3000, includeStorage := False, useIVV := False,
       investShareA := 10\<rparr>) \<noteq> monthlyRent default_inputs
   \<and> results (simulate (default_inputs\<lparr>currentMortgageBalance := 200000,
       smallerHomePrice := 500000, mortgageRatePct := 4, monthlyRent := 3000,
       includeStorage := False, useIVV := False, investShareA := 10\<rparr>)) ! 3
       = results (simulate default_inputs) ! 3
   \<and> map netWorthD (yearlyData (simulate (default_inputs\<lparr>currentMortgageBalance := 200000,
       smallerHomePrice := 500000, mortgageRatePct := 4, monthlyRent := 3000,
       includeStorage := False, useIVV := False, investShareA := 10\<rparr>)))
       = map netWorthD (yearlyData (simulate default_inputs))"
proof -
  let ?I = "default_inputs\<lparr>currentMortgageBalance := 200000, smallerHomePrice := 500000,
       mortgageRatePct := 4, monthlyRent := 3000, includeStorage := False, useIVV := False,
       investShareA := 10\<rparr>"
  have d: "monthlyRent ?I \<noteq> monthlyRent default_inputs"
    by (simp add: default_inputs_def)
  have "results (simulate ?I) ! 3 = results (simulate default_inputs) ! 3
    \<and> map netWorthD (yearlyData (simulate ?I)) = map netWorthD (yearlyData (simulate default_inputs))"
    using C10_scenario_D_independent [of ?I default_inputs] by simp
  with d show ?thesis
    by blast
qed

section \<open>Properties of the engine on JavaScript numbers\<close>

subsection \<open>The exact model is the engine on finite numbers\<close>

lemma fin_minus [simp]: "Fin a - Fin b = Fin (a - b)"
  by (simp add: minus_number_def)

lemma fin_divide: "b \<noteq> 0 \<Longrightarrow> Fin a / Fin b = Fin (a / b)"
  by simp

lemma fin_max [simp]: "Math_max (Fin a) (Fin b) = Fin (max a b)"
  by (simp add: Math_max_def max_def)

lemma fin_min [simp]: "Math_min (Fin a) (Fin b) = Fin (min a b)"
  by (simp add: Math_min_def min_def)

lemma fin_pct [simp]: "js_pct (Fin x) = Fin (pct x)"
  by (simp add: js_pct_def pct_def)

lemma whole_of_nat [simp]: "whole (real t)"
  by (simp add: whole_def)

lemma whole_one [simp]: "whole 1"
  by (simp add: whole_def)

lemma Math_pow_one [simp]: "Math_pow (Fin a) (Fin 1) = Fin a"
  by (simp add: Math_pow.simps)

lemma Math_pow_nat [simp]: "Math_pow (Fin a) (Fin (real t)) = Fin (a ^ t)"
  by (simp add: Math_pow.simps power_0_left)

lemma Math_pow_finite: "pow_finite x y \<Longrightarrow> Math_pow (Fin x) (Fin y) = Fin (pow x y)"
  by (auto simp: Math_pow.simps pow_finite_def pow_def whole_def)

lemma fin_amortizationPayment:
  assumes "payment_finite rate yrs"
  shows "js_amortizationPayment (Fin P) (Fin rate) (Fin yrs) = Fin (amortizationPayment P rate yrs)"
proof -
  define r where "r = pct rate / 12"
  define n where "n = yrs * 12"
  have r: "js_pct (Fin rate) / Fin 12 = Fin r" and n: "Fin yrs * Fin 12 = Fin n"
    by (simp_all add: r_def n_def)
  have js: "js_amortizationPayment (Fin P) (Fin rate) (Fin yrs)
      = (if r = 0 then Fin P / Fin n
         else Fin (P * r) / (Fin 1 - Math_pow (Fin (1 + r)) (Fin (- n))))"
    unfolding js_amortizationPayment_def Let_def r n by simp
  have re: "amortizationPayment P rate yrs
      = (if r = 0 then P / n else P * r / (1 - pow (1 + r) (- n)))"
    by (simp add: amortizationPayment_def Let_def r_def n_def)
  show ?thesis
  proof (cases "r = 0")
    case True
    with assms have "n \<noteq> 0"
      by (simp add: payment_finite_def Let_def r_def n_def)
    then show ?thesis
      using True by (simp add: js re)
  next
    case False
    with assms have p: "pow_finite (1 + r) (- n)" and d: "pow (1 + r) (- n) \<noteq> 1"
      by (simp_all add: payment_finite_def Let_def r_def n_def)
    show ?thesis
      using False d by (simp add: js re Math_pow_finite [OF p])
  qed
qed

lemma fin_constants [simp]:
  "js_sellingCosts (fin_inputs I) = Fin (sellingCosts I)"
  "js_equityBeforeTax (fin_inputs I) = Fin (equityBeforeTax I)"
  "js_capGainsTax (fin_inputs I) = Fin (capGainsTax I)"
  "js_netProceeds (fin_inputs I) = Fin (netProceeds I)"
  "js_baseline (fin_inputs I) = Fin (baseline I)"
  "js_investGrossRate (fin_inputs I) = Fin (investGrossRate I)"
  "js_investNetRate (fin_inputs I) = Fin (investNetRate I)"
  "js_dpB (fin_inputs I) = Fin (dpB I)"
  "js_mortgagePrincipalB (fin_inputs I) = Fin (mortgagePrincipalB I)"
  "js_monthlyMortgageRate (fin_inputs I) = Fin (monthlyMortgageRate I)"
  "js_cashC (fin_inputs I) = Fin (cashC I)"
proof -
  show 1: "js_sellingCosts (fin_inputs I) = Fin (sellingCosts I)"
    by (simp add: js_sellingCosts_def sellingCosts_def fin_inputs_def)
  show 2: "js_equityBeforeTax (fin_inputs I) = Fin (equityBeforeTax I)"
    by (simp add: js_equityBeforeTax_def equityBeforeTax_def 1) (simp add: fin_inputs_def)
  show 3: "js_capGainsTax (fin_inputs I) = Fin (capGainsTax I)"
    by (simp add: js_capGainsTax_def capGainsTax_def 2) (simp add: fin_inputs_def)
  show 4: "js_netProceeds (fin_inputs I) = Fin (netProceeds I)"
    by (simp add: js_netProceeds_def netProceeds_def 2 3)
  show 5: "js_baseline (fin_inputs I) = Fin (baseline I)"
    by (simp add: js_baseline_def baseline_def fin_inputs_def)
  show 6: "js_investGrossRate (fin_inputs I) = Fin (investGrossRate I)"
    by (simp add: js_investGrossRate_def investGrossRate_def 5) (simp add: fin_inputs_def)
  show "js_investNetRate (fin_inputs I) = Fin (investNetRate I)"
    by (simp add: js_investNetRate_def investNetRate_def 6) (simp add: fin_inputs_def)
  show 8: "js_dpB (fin_inputs I) = Fin (dpB I)"
    by (simp add: js_dpB_def dpB_def 4) (simp add: fin_inputs_def)
  show "js_mortgagePrincipalB (fin_inputs I) = Fin (mortgagePrincipalB I)"
    by (simp add: js_mortgagePrincipalB_def mortgagePrincipalB_def 8) (simp add: fin_inputs_def)
  show "js_monthlyMortgageRate (fin_inputs I) = Fin (monthlyMortgageRate I)"
    by (simp add: js_monthlyMortgageRate_def monthlyMortgageRate_def fin_inputs_def)
  show "js_cashC (fin_inputs I) = Fin (cashC I)"
    by (simp add: js_cashC_def cashC_def 4) (simp add: fin_inputs_def)
qed

lemma fin_mortgagePayment:
  "payment_finite (mortgageRatePct I) (mortgageYears I) \<Longrightarrow>
     js_mortgagePayment (fin_inputs I) = Fin (mortgagePayment I)"
  using fin_amortizationPayment [of "mortgageRatePct I" "mortgageYears I" "mortgagePrincipalB I"]
  by (simp add: js_mortgagePayment_def mortgagePayment_def) (simp add: fin_inputs_def)

lemma fin_month_step:
  "js_month_step (Fin p) (Fin r) (Fin a, Fin b)
     = (Fin (fst (month_step p r (a, b))), Fin (snd (month_step p r (a, b))))"
  by (simp add: js_month_step_def month_step_def Let_def)

lemma fin_month_loop:
  "js_month_loop (Fin p) (Fin r) k (Fin a, Fin b)
     = (Fin (fst (month_loop p r k (a, b))), Fin (snd (month_loop p r k (a, b))))"
proof (induction k arbitrary: a b)
  case 0
  show ?case by simp
next
  case (Suc k)
  obtain a' b' where st: "month_step p r (a, b) = (a', b')"
    by (cases "month_step p r (a, b)")
  then have js: "js_month_step (Fin p) (Fin r) (Fin a, Fin b) = (Fin a', Fin b')"
    by (simp add: fin_month_step)
  show ?case
    by (simp add: st js Suc.IH Let_def)
qed

lemma fin_growAnnual [simp]: "js_growAnnual (Fin v) (Fin p) (Fin 1) = Fin (growAnnual v p 1)"
  by (simp add: js_growAnnual_def growAnnual_def pow_one)


lemma fin_vars_fields [simp]:
  "v_investA (fin_vars s) = Fin (v_investA s)"
  "v_investB (fin_vars s) = Fin (v_investB s)"
  "v_investC (fin_vars s) = Fin (v_investC s)"
  "v_rent (fin_vars s) = Fin (v_rent s)"
  "v_storage (fin_vars s) = Fin (v_storage s)"
  "v_remainingPrincipal (fin_vars s) = Fin (v_remainingPrincipal s)"
  "v_homeValueB (fin_vars s) = Fin (v_homeValueB s)"
  "v_keepHomeValue (fin_vars s) = Fin (v_keepHomeValue s)"
  "v_yearlyData (fin_vars s) = map fin_snapshot (v_yearlyData s)"
  "v_cashflowsA (fin_vars s) = map Fin (v_cashflowsA s)"
  "v_cashflowsB (fin_vars s) = map Fin (v_cashflowsB s)"
  "v_cashflowsC (fin_vars s) = map Fin (v_cashflowsC s)"
  "v_cashflowsD (fin_vars s) = map Fin (v_cashflowsD s)"
  by (simp_all add: fin_vars_def)

lemma fin_inputs_fields [simp]:
  "includeStorage (fin_inputs I) = includeStorage I"
  "rentAnnualInflationPct (fin_inputs I) = Fin (rentAnnualInflationPct I)"
  "storageAnnualInflationPct (fin_inputs I) = Fin (storageAnnualInflationPct I)"
  "propertyTaxPct (fin_inputs I) = Fin (propertyTaxPct I)"
  "maintenancePct (fin_inputs I) = Fin (maintenancePct I)"
  "hoaMonthly (fin_inputs I) = Fin (hoaMonthly I)"
  "insuranceAnnual (fin_inputs I) = Fin (insuranceAnnual I)"
  "homeAppreciationPct (fin_inputs I) = Fin (homeAppreciationPct I)"
  "keepHoaMonthly (fin_inputs I) = Fin (keepHoaMonthly I)"
  "keepPropertyTaxAnnual (fin_inputs I) = Fin (keepPropertyTaxAnnual I)"
  "keepInsuranceAnnual (fin_inputs I) = Fin (keepInsuranceAnnual I)"
  "keepExtraMaintAnnual (fin_inputs I) = Fin (keepExtraMaintAnnual I)"
  "currentHomeAppreciationPct (fin_inputs I) = Fin (currentHomeAppreciationPct I)"
  "years (fin_inputs I) = Fin (years I)"
  "discountRatePct (fin_inputs I) = Fin (discountRatePct I)"
  "investShareA (fin_inputs I) = Fin (investShareA I)"
  "investShareB (fin_inputs I) = Fin (investShareB I)"
  "investShareC (fin_inputs I) = Fin (investShareC I)"
  "monthlyRent (fin_inputs I) = Fin (monthlyRent I)"
  "storageMonthly (fin_inputs I) = Fin (storageMonthly I)"
  "smallerHomePrice (fin_inputs I) = Fin (smallerHomePrice I)"
  "smallerHomeClosingPct (fin_inputs I) = Fin (smallerHomeClosingPct I)"
  "currentHomeValue (fin_inputs I) = Fin (currentHomeValue I)"
  by (simp_all add: fin_inputs_def)

lemma fin_init_vars: "js_init_vars (fin_inputs I) = fin_vars (init_vars I)"
  by (simp add: js_init_vars_def init_vars_def fin_vars_def)

lemma fin_year_body:
  assumes "js_mortgagePayment (fin_inputs I) = Fin (mortgagePayment I)"
  shows "js_year_body (fin_inputs I) y (fin_vars s) = fin_vars (year_body I y s)"
  unfolding js_year_body_def year_body_def Let_def
  by (simp add: assms fin_month_loop fin_vars_def fin_snapshot_def)

lemma fin_year_loop:
  assumes "js_mortgagePayment (fin_inputs I) = Fin (mortgagePayment I)"
  shows "js_year_loop (fin_inputs I) y (fin_vars s) = Some (fin_vars (year_loop I y s))"
  using assms
proof (induction I y s rule: year_loop.induct)
  case (1 I y s)
  show ?case
  proof (cases "real y \<le> years I")
    case True
    then show ?thesis
      using "1.IH" "1.prems"
      by (subst js_year_loop.simps, subst year_loop.simps) (simp add: fin_year_body)
  next
    case False
    then show ?thesis
      by (subst js_year_loop.simps, subst year_loop.simps) simp
  qed
qed

lemma fin_npv_foldl:
  assumes "b \<noteq> 0"
  shows "foldl (\<lambda>acc (cf, t). acc + cf / Math_pow (Fin b) (Fin (real t))) (Fin a)
            (zip (map Fin cfs) [0..<length cfs])
     = Fin (foldl (\<lambda>acc (cf, t). acc + cf / pow b (real t)) a (zip cfs [0..<length cfs]))"
proof (induction cfs rule: rev_induct)
  case Nil
  show ?case by simp
next
  case (snoc x xs)
  then show ?case
    using assms by (simp add: pow_nat)
qed

lemma fin_npv:
  "1 + pct d \<noteq> 0 \<Longrightarrow> js_npv (map Fin cfs) (Fin d) = Fin (npv cfs d)"
  using fin_npv_foldl [of "1 + pct d" 0 cfs] by (simp add: js_npv_def npv_def)

lemma fin_snapshot_fields [simp]:
  "investA (fin_snapshot x) = Fin (investA x)"
  "investB (fin_snapshot x) = Fin (investB x)"
  "investC (fin_snapshot x) = Fin (investC x)"
  "homeValueB (fin_snapshot x) = Fin (homeValueB x)"
  "remainingPrincipal (fin_snapshot x) = Fin (remainingPrincipal x)"
  "keepHomeValue (fin_snapshot x) = Fin (keepHomeValue x)"
  by (simp_all add: fin_snapshot_def)

lemma fin_at_last_map:
  assumes "\<And>x. g (fin_snapshot x) = Fin (f x)"
  shows "js_at_last g (map fin_snapshot yd) = Fin (at_last f yd)"
proof -
  have "js_at_last g ys = (if ys = [] then Fin 0 else g (last ys))" for ys
    by (cases ys) (simp_all add: js_at_last_def)
  moreover have "at_last f yd = (if yd = [] then 0 else f (last yd))"
    by (cases yd) (simp_all add: at_last_def)
  ultimately show ?thesis
    by (simp add: last_map assms)
qed

lemma fin_terminals [simp]:
  "js_terminalA (fin_vars s) = Fin (terminalA s)"
  "js_terminalB (fin_vars s) = Fin (terminalB s)"
  "js_terminalC (fin_inputs I) (fin_vars s) = Fin (terminalC I s)"
  "js_terminalD (fin_vars s) = Fin (terminalD s)"
  by (simp_all add: js_terminalA_def js_terminalB_def js_terminalC_def js_terminalD_def
      terminalA_def terminalB_def terminalC_def terminalD_def fin_at_last_map)

lemma fin_finish:
  assumes "1 + pct (discountRatePct I) \<noteq> 0"
  shows "js_finish (fin_inputs I) (fin_vars (final_vars I)) = fin_output (simulate I)"
proof -
  have n: "js_npv (map Fin cfs @ [Fin t]) (Fin (discountRatePct I))
      = Fin (npv (cfs @ [t]) (discountRatePct I))" for cfs t
    using fin_npv [OF assms, of "cfs @ [t]"] by simp
  show ?thesis
    unfolding js_finish_def simulate_def Let_def
    by (simp add: n fin_output_def fin_result_def fin_label_def)
qed

text \<open>
  On a ParameterSet of finite numbers whose mortgage payment and discount factors divide
  by nothing zero, the program computes on JavaScript numbers what the exact model
  computes on reals.
\<close>

theorem simulate_refines:
  assumes "payment_finite (mortgageRatePct I) (mortgageYears I)"
    and "1 + pct (discountRatePct I) \<noteq> 0"
  shows "js_simulate (fin_inputs I) = Some (fin_output (simulate I))"
proof -
  have "js_year_loop (fin_inputs I) 1 (js_init_vars (fin_inputs I)) = Some (fin_vars (final_vars I))"
    unfolding final_vars_def fin_init_vars
    by (rule fin_year_loop [OF fin_mortgagePayment [OF assms(1)]])
  then show ?thesis
    by (simp add: js_simulate_def fin_finish [OF assms(2)])
qed

subsection \<open>The mortgage payment\<close>

lemma payment_finite_pos:
  assumes "0 < 1 + pct rate / 12" and "yrs \<noteq> 0"
  shows "payment_finite rate yrs"
proof (cases "pct rate / 12 = 0")
  case True
  then show ?thesis
    using assms(2) by (simp add: payment_finite_def Let_def)
next
  case False
  have "(1 + pct rate / 12) powr (- (yrs * 12)) \<noteq> 1"
    using assms False by simp
  then show ?thesis
    using assms(1) False by (simp add: payment_finite_def Let_def pow_finite_def pow_pos)
qed

lemma js_payment_zero_term:
  "js_amortizationPayment (Fin P) (Fin rate) (Fin 0)
     = inf_of_sign (if pct rate / 12 = 0 then P else P * (pct rate / 12))"
proof -
  have p: "Math_pow x (Fin 0) = Fin 1" for x
    by (simp add: Math_pow.simps)
  show ?thesis
    by (simp add: js_amortizationPayment_def Let_def p)
qed

lemma js_annuity_denominator_zero_rate: "Fin 1 - Math_pow (Fin 1) (Fin y) = Fin 0"
proof -
  have "pow_finite 1 y"
    by (simp add: pow_finite_def)
  then show ?thesis
    by (simp add: Math_pow_finite pow_base_one)
qed

text \<open>
  C8, as amended: for a finite principal, rate and term with \<open>n = years * 12\<close> not zero,
  the payment is \<open>P / n\<close> when the monthly rate \<open>r\<close> is zero (the annuity formula's
  denominator is zero there) and \<open>P r / (1 - (1 + r)^(-n))\<close>, with a denominator that is
  not zero, when \<open>r\<close> is not zero and \<open>1 + r\<close> is positive; for a whole number \<open>m\<close> of
  months the power is \<open>1 / (1 + r)^m\<close>.  With \<open>n = 0\<close> the program divides by zero: the
  payment is \<open>Infinity\<close>, \<open>-Infinity\<close> or, for a zero dividend, \<open>NaN\<close>.
\<close>

theorem C8_amortization_payment:
  "(let r = rate / 100 / 12; n = yrs * 12 in
     (n \<noteq> 0 \<longrightarrow> r = 0
        \<longrightarrow> js_amortizationPayment (Fin P) (Fin rate) (Fin yrs) = Fin (P / n))
     \<and> (r = 0 \<longrightarrow> Fin 1 - Math_pow (Fin (1 + r)) (Fin (- n)) = Fin 0)
     \<and> (n \<noteq> 0 \<longrightarrow> r \<noteq> 0 \<longrightarrow> 0 < 1 + r
          \<longrightarrow> js_amortizationPayment (Fin P) (Fin rate) (Fin yrs)
                = Fin (P * r / (1 - (1 + r) powr (- n)))
              \<and> 1 - (1 + r) powr (- n) \<noteq> 0)
     \<and> (n = real m \<longrightarrow> m \<noteq> 0 \<longrightarrow> r \<noteq> 0 \<longrightarrow> 0 < 1 + r
          \<longrightarrow> js_amortizationPayment (Fin P) (Fin rate) (Fin yrs)
                = Fin (P * r / (1 - 1 / (1 + r) ^ m)))
     \<and> (n = 0 \<longrightarrow>
          js_amortizationPayment (Fin P) (Fin rate) (Fin yrs)
            = (if (if r = 0 then P else P * r) = 0 then NaN
               else if 0 < (if r = 0 then P else P * r) then PInf else NInf)))"
proof -
  define r where "r = rate / 100 / 12"
  define n where "n = yrs * 12"
  have r: "pct rate / 12 = r"
    by (simp add: r_def pct_def)
  have fin: "n \<noteq> 0 \<Longrightarrow> 0 < 1 + r \<Longrightarrow>
      js_amortizationPayment (Fin P) (Fin rate) (Fin yrs) = Fin (amortizationPayment P rate yrs)"
    using payment_finite_pos [of rate yrs] by (simp add: fin_amortizationPayment r n_def)
  have pay: "amortizationPayment P rate yrs
      = (if r = 0 then P / n else P * r / (1 - pow (1 + r) (- n)))"
    by (simp add: amortizationPayment_def Let_def r_def n_def pct_def)
  have 1: "n \<noteq> 0 \<longrightarrow> r = 0
      \<longrightarrow> js_amortizationPayment (Fin P) (Fin rate) (Fin yrs) = Fin (P / n)"
    using fin by (simp add: pay)
  have 2: "r = 0 \<longrightarrow> Fin 1 - Math_pow (Fin (1 + r)) (Fin (- n)) = Fin 0"
    by (simp add: js_annuity_denominator_zero_rate)
  have 3: "n \<noteq> 0 \<longrightarrow> r \<noteq> 0 \<longrightarrow> 0 < 1 + r
      \<longrightarrow> js_amortizationPayment (Fin P) (Fin rate) (Fin yrs)
            = Fin (P * r / (1 - (1 + r) powr (- n)))
          \<and> 1 - (1 + r) powr (- n) \<noteq> 0"
    using fin by (simp add: pay pow_pos)
  have 4: "n = real m \<longrightarrow> m \<noteq> 0 \<longrightarrow> r \<noteq> 0 \<longrightarrow> 0 < 1 + r
      \<longrightarrow> js_amortizationPayment (Fin P) (Fin rate) (Fin yrs)
            = Fin (P * r / (1 - 1 / (1 + r) ^ m))"
    using fin by (simp add: pay pow_neg_nat)
  have "n = 0 \<Longrightarrow> yrs = 0"
    by (simp add: n_def)
  then have 5: "n = 0 \<longrightarrow>
      js_amortizationPayment (Fin P) (Fin rate) (Fin yrs)
        = (if (if r = 0 then P else P * r) = 0 then NaN
           else if 0 < (if r = 0 then P else P * r) then PInf else NInf)"
    using js_payment_zero_term [of P rate] by (simp add: r inf_of_sign_def)
  from 1 2 3 4 5 show ?thesis
    unfolding Let_def r_def [symmetric] n_def [symmetric] by blast
qed

theorem C8_amortization_payment_witness:
  "js_amortizationPayment (Fin 1200) (Fin 0) (Fin 1) = Fin 100
   \<and> js_amortizationPayment (Fin 2100) (Fin 1200) (Fin (1 / 6)) = Fin 2800
   \<and> js_amortizationPayment (Fin 89000) (Fin (13 / 2)) (Fin 0) = PInf"
proof -
  have a: "js_amortizationPayment (Fin 1200) (Fin 0) (Fin 1) = Fin 100"
    using C8_amortization_payment [of 0 1 1200 12] by (simp add: Let_def)
  have b: "js_amortizationPayment (Fin 2100) (Fin 1200) (Fin (1 / 6)) = Fin 2800"
    using C8_amortization_payment [of 1200 "1 / 6" 2100 2]
    by (simp add: Let_def powr_neg_numeral)
  have c: "js_amortizationPayment (Fin 89000) (Fin (13 / 2)) (Fin 0) = PInf"
    using C8_amortization_payment [of "13 / 2" 0 89000 0] by (simp add: Let_def)
  from a b c show ?thesis
    by blast
qed

text \<open>
  The claim as stated fails for a zero term at a zero rate: the straight-line branch
  divides the principal by \<open>n = 0 * 12 = 0\<close>, and the payment is \<open>Infinity\<close>, or
  \<open>NaN\<close> for a zero principal.
\<close>

theorem C8_counterexample:
  "js_pct (Fin 0) / Fin 12 = Fin 0
   \<and> Fin 0 * Fin 12 = Fin 0
   \<and> js_amortizationPayment (Fin 1200) (Fin 0) (Fin 0) = PInf
   \<and> js_amortizationPayment (Fin 0) (Fin 0) (Fin 0) = NaN"
  by (simp add: js_payment_zero_term inf_of_sign_def pct_def)

subsection \<open>Termination of the yearly loop\<close>

lemma le_number_cases:
  "Fin a \<le> z \<Longrightarrow> z = PInf \<or> (\<exists>x. z = Fin x \<and> a \<le> x)"
  by (cases z) simp_all

lemma not_le_number_cases:
  "\<not> Fin a \<le> z \<Longrightarrow> z = NInf \<or> z = NaN \<or> (\<exists>x. z = Fin x \<and> \<not> a \<le> x)"
  by (cases z) simp_all

lemma js_year_loop_enter:
  assumes "years I \<noteq> PInf" and "Fin (real y) \<le> years I"
  shows "y \<le> js_horizon I"
proof -
  from le_number_cases [OF assms(2)] assms(1)
  obtain x where x: "years I = Fin x" and "real y \<le> x"
    by blast
  then have "int y \<le> \<lfloor>x\<rfloor>"
    by (simp add: le_floor_iff)
  then have "y \<le> nat \<lfloor>x\<rfloor>"
    by linarith
  then show ?thesis
    by (simp add: js_horizon_def x)
qed

lemma js_year_loop_leave:
  assumes "0 < y" and "\<not> Fin (real y) \<le> years I"
  shows "js_horizon I < y"
proof -
  from not_le_number_cases [OF assms(2)]
  consider "years I = NInf \<or> years I = NaN" | x where "years I = Fin x" "\<not> real y \<le> x"
    by blast
  then show ?thesis
  proof cases
    case 1
    then show ?thesis
      using assms(1) by (auto simp: js_horizon_def)
  next
    case 2
    then have "\<lfloor>x\<rfloor> < int y"
      by (simp add: floor_less_iff not_le)
    then show ?thesis
      using 2(1) nat_less_int [OF assms(1)] by (simp add: js_horizon_def)
  qed
qed

lemma js_year_loop_fold:
  assumes "years I \<noteq> PInf"
  shows "0 < y \<Longrightarrow>
    js_year_loop I y s = Some (fold (js_year_body I) [y..<Suc (js_horizon I)] s)"
proof (induction "Suc (js_horizon I) - y" arbitrary: y s)
  case 0
  then have "js_horizon I < y"
    by simp
  then have "\<not> Fin (real y) \<le> years I"
    using js_year_loop_enter [OF assms, of y] by auto
  then show ?case
    using \<open>js_horizon I < y\<close> by (subst js_year_loop.simps) simp
next
  case (Suc n)
  then have le: "y < Suc (js_horizon I)"
    by simp
  then have "Fin (real y) \<le> years I"
    using js_year_loop_leave [OF Suc.prems, of I] by auto
  then have "js_year_loop I y s = js_year_loop I (Suc y) (js_year_body I y s)"
    by (subst js_year_loop.simps) simp
  also have "\<dots> = Some (fold (js_year_body I) [Suc y..<Suc (js_horizon I)] (js_year_body I y s))"
    using Suc.hyps(2) by (intro Suc.hyps(1)) simp_all
  also have "\<dots> = Some (fold (js_year_body I) [y..<Suc (js_horizon I)] s)"
    by (simp only: upt_conv_Cons [OF le] fold_simps)
  finally show ?case .
qed

lemma js_year_loop_Some:
  assumes "js_year_loop I y s = Some r"
  shows "years I \<noteq> PInf"
proof (rule js_year_loop.raw_induct [where P = "\<lambda>I y s r. years I \<noteq> PInf", OF _ assms])
  fix loop :: "js_Inputs \<Rightarrow> nat \<Rightarrow> js_loop_vars \<Rightarrow> js_loop_vars option"
    and I y s r
  assume IH: "\<And>I y s r. loop I y s = Some r \<Longrightarrow> years I \<noteq> PInf"
    and step: "(if Fin (real y) \<le> years I
      then loop I (Suc y) (js_year_body I y s) else Some s) = Some r"
  show "years I \<noteq> PInf"
  proof
    assume inf: "years I = PInf"
    with step have "loop I (Suc y) (js_year_body I y s) = Some r"
      by simp
    from IH [OF this] inf show False
      by simp
  qed
qed

lemma js_year_loop_diverges: "years I = PInf \<Longrightarrow> js_year_loop I y s = None"
  using js_year_loop_Some [of I y s] by (cases "js_year_loop I y s") auto

lemma js_simulate_returns:
  "years I \<noteq> PInf \<Longrightarrow>
     js_simulate I
       = Some (js_finish I (fold (js_year_body I) [1..<Suc (js_horizon I)] (js_init_vars I)))"
  by (simp add: js_simulate_def js_year_loop_fold)

lemma js_simulate_diverges: "years I = PInf \<Longrightarrow> js_simulate I = None"
  by (simp add: js_simulate_def js_year_loop_diverges)


lemma Math_pow_zero [simp]: "Math_pow x (Fin 0) = Fin 1"
  by (simp add: Math_pow.simps)

lemma plus_inf_of_sign [simp]: "Fin a + inf_of_sign b = inf_of_sign b"
  by (simp add: inf_of_sign_def)

lemma js_npv_two:
  "js_npv [Fin a, Fin b] (Fin d)
     = (if 1 + pct d = 0 then inf_of_sign b else Fin (a + b / (1 + pct d)))"
  by (simp add: js_npv_def Let_def)

lemma js_horizon_fin: "js_horizon (fin_inputs I) = horizon I"
  by (simp add: js_horizon_def horizon_def)

lemma js_simulate_zero_horizon:
  assumes "years I < 1"
  shows "js_simulate (fin_inputs I) =
     Some \<lparr> out_netProceeds = Fin (netProceeds I),
            yearlyData = [],
            results =
              [ \<lparr> key = KeyA (Fin (investShareA I)),
                  res_npv = (if 1 + pct (discountRatePct I) = 0 then NaN else Fin 0),
                  terminal = Fin 0,
                  color = ''from-sky-500/20 to-sky-500/5'', stroke = ''#0ea5e9'' \<rparr>,
                \<lparr> key = KeyB (Fin (investShareB I)),
                  res_npv = (if 1 + pct (discountRatePct I) = 0 then NaN
                     else Fin (- (smallerHomePrice I * pct (smallerHomeClosingPct I)) - dpB I)),
                  terminal = Fin 0,
                  color = ''from-emerald-500/20 to-emerald-500/5'', stroke = ''#10b981'' \<rparr>,
                \<lparr> key = KeyC (Fin (investShareC I)),
                  res_npv = (if 1 + pct (discountRatePct I) = 0 then inf_of_sign (cashC I)
                     else Fin (cashC I / (1 + pct (discountRatePct I)))),
                  terminal = Fin (cashC I),
                  color = ''from-amber-500/20 to-amber-500/5'', stroke = ''#f59e0b'' \<rparr>,
                \<lparr> key = KeyD,
                  res_npv = (if 1 + pct (discountRatePct I) = 0 then NaN else Fin 0),
                  terminal = Fin 0,
                  color = ''from-violet-500/20 to-violet-500/5'', stroke = ''#8b5cf6'' \<rparr> ] \<rparr>"
proof -
  have h: "js_horizon (fin_inputs I) = 0"
    using assms by (simp add: js_horizon_fin zero_horizon)
  have t: "terminalA (init_vars I) = 0" "terminalB (init_vars I) = 0"
    "terminalC I (init_vars I) = cashC I" "terminalD (init_vars I) = 0"
    by (simp_all add: terminalA_def terminalB_def terminalC_def terminalD_def at_last_def
        init_vars_def)
  have cf: "v_cashflowsA (init_vars I) = [0]" "v_cashflowsC (init_vars I) = [0]"
    "v_cashflowsD (init_vars I) = [0]"
    "v_cashflowsB (init_vars I) = [- (smallerHomePrice I * pct (smallerHomeClosingPct I)) - dpB I]"
    "v_yearlyData (init_vars I) = []"
    by (simp_all add: init_vars_def)
  have "js_simulate (fin_inputs I) = Some (js_finish (fin_inputs I) (fin_vars (init_vars I)))"
    by (simp add: js_simulate_returns h fin_init_vars)
  then show ?thesis
    by (simp add: js_finish_def Let_def t cf js_npv_two inf_of_sign_def)
qed

lemma div_NaN [simp]: "x / NaN = NaN"
  by (cases x) simp_all

lemma plus_NaN [simp]: "x + NaN = NaN"
  by (cases x) simp_all

lemma Math_pow_NaN: "0 < t \<Longrightarrow> Math_pow NaN (Fin (real t)) = NaN"
  by (simp add: Math_pow.simps)

lemma js_npv_step_NaN:
  "foldl (\<lambda>acc (cf, t). acc + cf / Math_pow NaN (Fin (real t))) NaN xs = NaN"
  by (induction xs) (simp_all add: split_beta)

lemma js_npv_NaN:
  assumes "2 \<le> length cfs"
  shows "js_npv cfs NaN = NaN"
proof -
  from assms obtain c0 c1 rest where cfs: "cfs = c0 # c1 # rest"
    by (cases cfs; cases "tl cfs") auto
  have up: "[0..<length cfs] = 0 # Suc 0 # [Suc (Suc 0)..<length cfs]"
    by (simp add: cfs upt_conv_Cons del: upt_Suc)
  have r: "Fin 1 + js_pct NaN = NaN"
    by (simp add: js_pct_def)
  have p: "Math_pow NaN (Fin (real (Suc 0))) = NaN"
    by (rule Math_pow_NaN) simp
  show ?thesis
    unfolding js_npv_def Let_def r up
    using p by (simp add: cfs js_npv_step_NaN)
qed

lemma js_cashflows_nonempty:
  "v_cashflowsA (fold (js_year_body I) ys (js_init_vars I)) \<noteq> []"
  "v_cashflowsB (fold (js_year_body I) ys (js_init_vars I)) \<noteq> []"
  "v_cashflowsC (fold (js_year_body I) ys (js_init_vars I)) \<noteq> []"
  "v_cashflowsD (fold (js_year_body I) ys (js_init_vars I)) \<noteq> []"
  by (induction ys rule: rev_induct)
    (simp_all add: js_init_vars_def js_year_body_def Let_def)

lemma js_length_yearlyData:
  "length (v_yearlyData (fold (js_year_body I) ys (js_init_vars I))) = length ys"
  by (induction ys rule: rev_induct)
    (simp_all add: js_init_vars_def js_year_body_def Let_def)

lemma js_results_NaN_rate:
  assumes "discountRatePct I = NaN"
  shows "map res_npv (results (js_finish I (fold (js_year_body I) ys (js_init_vars I))))
    = [NaN, NaN, NaN, NaN]"
proof -
  have "2 \<le> length (cfs @ [t])" if "cfs \<noteq> []" for cfs :: "number list" and t
    using that by (cases cfs) simp_all
  then have "js_npv (cfs @ [t]) NaN = NaN" if "cfs \<noteq> []" for cfs t
    using that by (intro js_npv_NaN) simp
  then show ?thesis
    by (simp add: js_finish_def Let_def assms js_cashflows_nonempty)
qed

subsection \<open>Degenerate inputs\<close>

lemma js_mortgagePayment_zero_term:
  assumes "mortgageYears I = 0"
  shows "js_mortgagePayment (fin_inputs I)
    = inf_of_sign (if mortgageRatePct I / 100 / 12 = 0 then mortgagePrincipalB I
                   else mortgagePrincipalB I * (mortgageRatePct I / 100 / 12))"
proof -
  have "js_mortgagePayment (fin_inputs I)
      = js_amortizationPayment (Fin (mortgagePrincipalB I)) (Fin (mortgageRatePct I)) (Fin 0)"
    using assms by (simp add: js_mortgagePayment_def) (simp add: fin_inputs_def)
  then show ?thesis
    by (simp add: js_payment_zero_term pct_def)
qed

lemma js_finish_results: "length (results (js_finish I s)) = 4"
  by (simp add: js_finish_def Let_def)

text \<open>
  C3, as amended: the engine validates nothing and rejects no ParameterSet.  Whatever
  the inputs are, finite or not, it returns an output of four results and one snapshot
  per year, unless the horizon is \<open>Infinity\<close>, for which it never returns.  For a
  zero-length horizon and finite inputs the output has no snapshot, the terminal values
  \<open>0\<close>, \<open>0\<close>, the cash held in C, and \<open>0\<close>, and the NPVs \<open>0\<close>, the negated down payment
  and closing costs, the held cash discounted once, and \<open>0\<close>; at a discount rate of
  -100% these NPVs are \<open>NaN\<close>, \<open>NaN\<close>, an infinity of the sign of the held cash (\<open>NaN\<close>
  for none), and \<open>NaN\<close>.  For a zero-length mortgage term the monthly payment is an
  infinity or \<open>NaN\<close>.  For a \<open>NaN\<close> discount rate every NPV is \<open>NaN\<close>.
\<close>

theorem C3_degenerate_inputs:
  "(years J \<noteq> PInf \<longrightarrow>
      (\<exists>out. js_simulate J = Some out \<and> length (results out) = 4
         \<and> length (yearlyData out) = js_horizon J))
   \<and> (years J = PInf \<longrightarrow> js_simulate J = None)
   \<and> (years I < 1 \<longrightarrow>
        (\<exists>out. js_simulate (fin_inputs I) = Some out
           \<and> yearlyData out = []
           \<and> map terminal (results out) = [Fin 0, Fin 0, Fin (cashC I), Fin 0]
           \<and> map res_npv (results out)
               = (if 1 + discountRatePct I / 100 = 0
                  then [NaN, NaN,
                        if cashC I = 0 then NaN else if 0 < cashC I then PInf else NInf, NaN]
                  else [Fin 0,
                        Fin (- (dpB I + smallerHomePrice I * (smallerHomeClosingPct I / 100))),
                        Fin (cashC I / (1 + discountRatePct I / 100)), Fin 0])))
   \<and> (mortgageYears I = 0 \<longrightarrow>
        js_mortgagePayment (fin_inputs I)
          = (if mortgageRatePct I / 100 / 12 = 0
             then (if mortgagePrincipalB I = 0 then NaN
                   else if 0 < mortgagePrincipalB I then PInf else NInf)
             else (if mortgagePrincipalB I * (mortgageRatePct I / 100 / 12) = 0 then NaN
                   else if 0 < mortgagePrincipalB I * (mortgageRatePct I / 100 / 12) then PInf
                   else NInf)))
   \<and> (discountRatePct J = NaN \<longrightarrow> years J \<noteq> PInf \<longrightarrow>
        (\<exists>out. js_simulate J = Some out \<and> map res_npv (results out) = [NaN, NaN, NaN, NaN]))"
proof -
  have 1: "years J \<noteq> PInf \<longrightarrow>
      (\<exists>out. js_simulate J = Some out \<and> length (results out) = 4
         \<and> length (yearlyData out) = js_horizon J)"
  proof
    assume y: "years J \<noteq> PInf"
    let ?s = "fold (js_year_body J) [1..<Suc (js_horizon J)] (js_init_vars J)"
    have "yearlyData (js_finish J ?s) = v_yearlyData ?s"
      by (simp add: js_finish_def Let_def)
    then have "length (yearlyData (js_finish J ?s)) = js_horizon J"
      by (simp add: js_length_yearlyData del: upt_Suc)
    with js_simulate_returns [OF y] js_finish_results [of J ?s]
    show "\<exists>out. js_simulate J = Some out \<and> length (results out) = 4
         \<and> length (yearlyData out) = js_horizon J"
      by blast
  qed
  have 2: "years J = PInf \<longrightarrow> js_simulate J = None"
    by (simp add: js_simulate_diverges)
  have 3: "years I < 1 \<longrightarrow>
        (\<exists>out. js_simulate (fin_inputs I) = Some out
           \<and> yearlyData out = []
           \<and> map terminal (results out) = [Fin 0, Fin 0, Fin (cashC I), Fin 0]
           \<and> map res_npv (results out)
               = (if 1 + discountRatePct I / 100 = 0
                  then [NaN, NaN,
                        if cashC I = 0 then NaN else if 0 < cashC I then PInf else NInf, NaN]
                  else [Fin 0,
                        Fin (- (dpB I + smallerHomePrice I * (smallerHomeClosingPct I / 100))),
                        Fin (cashC I / (1 + discountRatePct I / 100)), Fin 0]))"
    by (simp add: js_simulate_zero_horizon inf_of_sign_def pct_def)
  have 4: "mortgageYears I = 0 \<longrightarrow>
        js_mortgagePayment (fin_inputs I)
          = (if mortgageRatePct I / 100 / 12 = 0
             then (if mortgagePrincipalB I = 0 then NaN
                   else if 0 < mortgagePrincipalB I then PInf else NInf)
             else (if mortgagePrincipalB I * (mortgageRatePct I / 100 / 12) = 0 then NaN
                   else if 0 < mortgagePrincipalB I * (mortgageRatePct I / 100 / 12) then PInf
                   else NInf))"
    by (simp add: js_mortgagePayment_zero_term inf_of_sign_def)
  have 5: "discountRatePct J = NaN \<longrightarrow> years J \<noteq> PInf \<longrightarrow>
        (\<exists>out. js_simulate J = Some out \<and> map res_npv (results out) = [NaN, NaN, NaN, NaN])"
    by (simp add: js_simulate_returns js_results_NaN_rate)
  from 1 2 3 4 5 show ?thesis
    by blast
qed


lemma default_netProceeds:
  assumes "currentHomeValue I = 1300000" and "currentMortgageBalance I = 0"
    and "sellingCostsPct I = 6" and "capGainsTaxPct I = 0"
  shows "netProceeds I = 1222000"
  using assms
  by (simp add: netProceeds_def capGainsTax_def equityBeforeTax_def sellingCosts_def pct_def)

theorem C3_degenerate_inputs_witness:
  "years (default_inputs\<lparr>years := 0\<rparr>) < 1
   \<and> map res_npv (results (the (js_simulate (fin_inputs (default_inputs\<lparr>years := 0\<rparr>)))))
       = [Fin 0, Fin (- 628500), Fin (122200000 / 211), Fin 0]
   \<and> mortgageYears (default_inputs\<lparr>mortgageYears := 0\<rparr>) = 0
   \<and> js_mortgagePayment (fin_inputs (default_inputs\<lparr>mortgageYears := 0\<rparr>)) = PInf
   \<and> years ((fin_inputs default_inputs)\<lparr>years := PInf\<rparr>) = PInf
   \<and> js_simulate ((fin_inputs default_inputs)\<lparr>years := PInf\<rparr>) = None
   \<and> discountRatePct ((fin_inputs default_inputs)\<lparr>discountRatePct := NaN\<rparr>) = NaN
   \<and> map res_npv
         (results (the (js_simulate ((fin_inputs default_inputs)\<lparr>discountRatePct := NaN\<rparr>))))
       = [NaN, NaN, NaN, NaN]"
proof -
  let ?I = "default_inputs\<lparr>years := 0\<rparr>"
  let ?M = "default_inputs\<lparr>mortgageYears := 0\<rparr>"
  let ?Y = "(fin_inputs default_inputs)\<lparr>years := PInf\<rparr>"
  let ?D = "(fin_inputs default_inputs)\<lparr>discountRatePct := NaN\<rparr>"
  have y: "years ?I < 1"
    by simp
  have np: "netProceeds ?I = 1222000" "netProceeds ?M = 1222000"
    by (rule default_netProceeds; simp add: default_inputs_def)+
  have c: "cashC ?I = 611000"
    by (simp add: cashC_def np) (simp add: default_inputs_def pct_def)
  have dp: "dpB ?I = 611000" "dpB ?M = 611000"
    by (simp_all add: dpB_def np) (simp_all add: default_inputs_def pct_def)
  have cl: "smallerHomePrice ?I * (smallerHomeClosingPct ?I / 100) = 17500"
    by (simp add: default_inputs_def)
  have r: "1 + discountRatePct ?I / 100 = 211 / 200"
    by (simp add: default_inputs_def)
  have p: "mortgagePrincipalB ?M = 89000"
    by (simp add: mortgagePrincipalB_def dp) (simp add: default_inputs_def)
  have m: "mortgageRatePct ?M = 13 / 2" "mortgageYears ?M = 0"
    by (simp_all add: default_inputs_def)
  from C3_degenerate_inputs [of _ ?I, THEN conjunct2, THEN conjunct2, THEN conjunct1,
      rule_format, OF y]
  obtain out where "js_simulate (fin_inputs ?I) = Some out"
    and "map res_npv (results out)
        = (if 1 + discountRatePct ?I / 100 = 0
           then [NaN, NaN, if cashC ?I = 0 then NaN else if 0 < cashC ?I then PInf else NInf, NaN]
           else [Fin 0, Fin (- (dpB ?I + smallerHomePrice ?I * (smallerHomeClosingPct ?I / 100))),
                 Fin (cashC ?I / (1 + discountRatePct ?I / 100)), Fin 0])"
    by (elim exE conjE)
  then have 1: "map res_npv (results (the (js_simulate (fin_inputs ?I))))
      = [Fin 0, Fin (- 628500), Fin (122200000 / 211), Fin 0]"
    by (simp only: c dp cl r) simp
  from C3_degenerate_inputs [of _ ?M, THEN conjunct2, THEN conjunct2, THEN conjunct2,
      THEN conjunct1, rule_format, OF m(2)]
  have "js_mortgagePayment (fin_inputs ?M)
      = (if mortgageRatePct ?M / 100 / 12 = 0
         then (if mortgagePrincipalB ?M = 0 then NaN
               else if 0 < mortgagePrincipalB ?M then PInf else NInf)
         else (if mortgagePrincipalB ?M * (mortgageRatePct ?M / 100 / 12) = 0 then NaN
               else if 0 < mortgagePrincipalB ?M * (mortgageRatePct ?M / 100 / 12) then PInf
               else NInf))" .
  then have 2: "js_mortgagePayment (fin_inputs ?M) = PInf"
    by (simp only: p m) simp
  have 3: "js_simulate ?Y = None"
    using C3_degenerate_inputs [of ?Y, THEN conjunct2, THEN conjunct1] by simp
  have d: "discountRatePct ?D = NaN" and fy: "years ?D \<noteq> PInf"
    by (simp_all add: fin_inputs_def)
  from C3_degenerate_inputs [of ?D, THEN conjunct2, THEN conjunct2, THEN conjunct2,
      THEN conjunct2, rule_format, OF d fy]
  obtain out' where "js_simulate ?D = Some out'"
    and "map res_npv (results out') = [NaN, NaN, NaN, NaN]"
    by (elim exE conjE)
  then have 4: "map res_npv (results (the (js_simulate ?D))) = [NaN, NaN, NaN, NaN]"
    by simp
  from y 1 m(2) 2 3 4 d show ?thesis
    by simp
qed

text \<open>
  The claim as stated fails on the initial form state with a zero-length horizon and a
  discount rate of -100%: the engine raises no validation error and returns this output,
  whose NPVs are \<open>NaN\<close>, \<open>NaN\<close>, \<open>Infinity\<close> and \<open>NaN\<close>.
\<close>

theorem C3_counterexample:
  "years (fin_inputs (default_inputs\<lparr>years := 0, discountRatePct := - 100\<rparr>)) = Fin 0
   \<and> js_simulate (fin_inputs (default_inputs\<lparr>years := 0, discountRatePct := - 100\<rparr>)) =
       Some \<lparr> out_netProceeds = Fin 1222000,
              yearlyData = [],
              results =
                [ \<lparr> key = KeyA (Fin 100), res_npv = NaN, terminal = Fin 0,
                    color = ''from-sky-500/20 to-sky-500/5'', stroke = ''#0ea5e9'' \<rparr>,
                  \<lparr> key = KeyB (Fin 50), res_npv = NaN, terminal = Fin 0,
                    color = ''from-emerald-500/20 to-emerald-500/5'', stroke = ''#10b981'' \<rparr>,
                  \<lparr> key = KeyC (Fin 50), res_npv = PInf, terminal = Fin 611000,
                    color = ''from-amber-500/20 to-amber-500/5'', stroke = ''#f59e0b'' \<rparr>,
                  \<lparr> key = KeyD, res_npv = NaN, terminal = Fin 0,
                    color = ''from-violet-500/20 to-violet-500/5'', stroke = ''#8b5cf6'' \<rparr> ] \<rparr>"
proof -
  let ?I = "default_inputs\<lparr>years := 0, discountRatePct := - 100\<rparr>"
  have y: "years ?I < 1"
    by simp
  have np: "netProceeds ?I = 1222000"
    by (rule default_netProceeds; simp add: default_inputs_def)
  have c: "cashC ?I = 611000"
    by (simp add: cashC_def np) (simp add: default_inputs_def pct_def)
  have r: "1 + pct (discountRatePct ?I) = 0"
    by (simp add: pct_def)
  have k: "investShareA ?I = 100" "investShareB ?I = 50" "investShareC ?I = 50"
    by (simp_all add: default_inputs_def)
  show ?thesis
    unfolding js_simulate_zero_horizon [OF y] np c r k
    by (simp add: inf_of_sign_def)
qed

subsection \<open>The best scenario is the first of maximal NPV\<close>

lemma insert_by_not_Nil: "insert_by cmp x ys \<noteq> []"
  by (cases ys) simp_all

lemma hd_insert_by:
  "hd (insert_by cmp x ys) = (if ys = [] \<or> \<not> Fin 0 < cmp x (hd ys) then x else hd ys)"
  by (cases ys) simp_all

lemma sort_by_Cons: "sort_by cmp (x # xs) = insert_by cmp x (sort_by cmp xs)"
  by (simp add: sort_by_def)

lemma sort_by_Nil_iff: "sort_by cmp xs = [] \<longleftrightarrow> xs = []"
  by (cases xs) (simp_all add: sort_by_def insert_by_not_Nil)

lemma best_hd: "rs \<noteq> [] \<Longrightarrow> best rs = Some (hd (sort_by (\<lambda>a b. res_npv b - res_npv a) rs))"
  by (cases "sort_by (\<lambda>a b. res_npv b - res_npv a) rs") (simp_all add: best_def sort_by_Nil_iff)

lemma hd_sort_by_first_max:
  fixes rs :: "js_ScenarioResult list"
  assumes "\<forall>r\<in>set rs. \<exists>v. res_npv r = Fin v"
  shows "rs \<noteq> [] \<Longrightarrow>
     \<exists>i<length rs. hd (sort_by (\<lambda>a b. res_npv b - res_npv a) rs) = rs ! i
       \<and> (\<forall>j<length rs. res_npv (rs ! j) \<le> res_npv (rs ! i))
       \<and> (\<forall>j<i. res_npv (rs ! j) < res_npv (rs ! i))"
  using assms
proof (induction rs)
  case Nil
  then show ?case by simp
next
  case (Cons x xs)
  let ?cmp = "\<lambda>a b :: js_ScenarioResult. res_npv b - res_npv a"
  from Cons.prems(2) obtain a where a: "res_npv x = Fin a"
    by auto
  show ?case
  proof (cases "xs = []")
    case True
    then show ?thesis
      by (simp add: sort_by_def a)
  next
    case False
    from Cons.prems(2) have fin: "\<forall>r\<in>set xs. \<exists>v. res_npv r = Fin v"
      by simp
    with Cons.IH False obtain i where i: "i < length xs"
      and hd: "hd (sort_by ?cmp xs) = xs ! i"
      and mx: "\<forall>j<length xs. res_npv (xs ! j) \<le> res_npv (xs ! i)"
      and fst: "\<forall>j<i. res_npv (xs ! j) < res_npv (xs ! i)"
      by blast
    from fin i obtain b where b: "res_npv (xs ! i) = Fin b"
      by (meson nth_mem)
    have ne: "sort_by ?cmp xs \<noteq> []"
      using False by (simp add: sort_by_Nil_iff)
    have vals: "\<exists>c. res_npv (xs ! j) = Fin c" if "j < length xs" for j
      using fin that by (meson nth_mem)
    show ?thesis
    proof (cases "b \<le> a")
      case True
      then have "hd (sort_by ?cmp (x # xs)) = (x # xs) ! 0"
        using ne hd by (simp add: sort_by_Cons hd_insert_by a b)
      moreover have "\<forall>j<length (x # xs). res_npv ((x # xs) ! j) \<le> res_npv ((x # xs) ! 0)"
      proof (intro allI impI)
        fix j
        assume j: "j < length (x # xs)"
        show "res_npv ((x # xs) ! j) \<le> res_npv ((x # xs) ! 0)"
        proof (cases j)
          case 0
          then show ?thesis by (simp add: a)
        next
          case (Suc k)
          with j have k: "k < length xs" by simp
          from vals [OF k] obtain c where c: "res_npv (xs ! k) = Fin c"
            by blast
          from mx k have "res_npv (xs ! k) \<le> res_npv (xs ! i)"
            by blast
          then show ?thesis
            using True by (simp add: Suc a b c)
        qed
      qed
      ultimately show ?thesis
        by (intro exI [of _ 0]) simp
    next
      case False
      then have "hd (sort_by ?cmp (x # xs)) = (x # xs) ! Suc i"
        using ne hd by (simp add: sort_by_Cons hd_insert_by a b)
      moreover have "\<forall>j<length (x # xs). res_npv ((x # xs) ! j) \<le> res_npv ((x # xs) ! Suc i)"
      proof (intro allI impI)
        fix j
        assume "j < length (x # xs)"
        then show "res_npv ((x # xs) ! j) \<le> res_npv ((x # xs) ! Suc i)"
          using mx False by (cases j) (simp_all add: a b)
      qed
      moreover have "\<forall>j<Suc i. res_npv ((x # xs) ! j) < res_npv ((x # xs) ! Suc i)"
      proof (intro allI impI)
        fix j
        assume "j < Suc i"
        then show "res_npv ((x # xs) ! j) < res_npv ((x # xs) ! Suc i)"
          using fst False by (cases j) (simp_all add: a b)
      qed
      ultimately show ?thesis
        using i by (intro exI [of _ "Suc i"]) simp
    qed
  qed
qed

lemma js_simulate_Some:
  assumes "js_simulate J = Some out"
  shows "\<exists>s. out = js_finish J s"
  using assms by (auto simp: js_simulate_def)

text \<open>
  C9, as amended: when the four NPVs that \<open>simulate\<close> returns are finite, the best
  scenario is one of the four results, in the order A, B, C, D; none of the four has a
  larger NPV, and every result before it has a strictly smaller one, so among several
  results of maximal NPV the first is selected.
\<close>

theorem C9_best_scenario:
  assumes "js_simulate J = Some out"
    and "\<forall>r\<in>set (results out). \<exists>v. res_npv r = Fin v"
  shows "map key (results out)
      = [KeyA (investShareA J), KeyB (investShareB J), KeyC (investShareC J), KeyD]
    \<and> (\<exists>i<4. best (results out) = Some (results out ! i)
         \<and> (\<forall>j<4. res_npv (results out ! j) \<le> res_npv (results out ! i))
         \<and> (\<forall>j<i. res_npv (results out ! j) < res_npv (results out ! i)))"
proof -
  from js_simulate_Some [OF assms(1)] obtain s where out: "out = js_finish J s"
    by blast
  have len: "length (results out) = 4"
    by (simp add: out js_finish_results)
  then have ne: "results out \<noteq> []"
    by auto
  have "map key (results out)
      = [KeyA (investShareA J), KeyB (investShareB J), KeyC (investShareC J), KeyD]"
    by (simp add: out js_finish_def Let_def)
  moreover have "\<exists>i<4. best (results out) = Some (results out ! i)
       \<and> (\<forall>j<4. res_npv (results out ! j) \<le> res_npv (results out ! i))
       \<and> (\<forall>j<i. res_npv (results out ! j) < res_npv (results out ! i))"
    using hd_sort_by_first_max [OF assms(2) ne]
    by (simp only: best_hd [OF ne] len option.inject)
  ultimately show ?thesis
    by blast
qed


theorem C9_best_scenario_witness:
  "map res_npv
     (results (the (js_simulate (fin_inputs (default_inputs\<lparr>years := 0, investShareC := 100\<rparr>)))))
     = [Fin 0, Fin (- 628500), Fin 0, Fin 0]
   \<and> best (results (the (js_simulate
         (fin_inputs (default_inputs\<lparr>years := 0, investShareC := 100\<rparr>)))))
       = Some (results (the (js_simulate
           (fin_inputs (default_inputs\<lparr>years := 0, investShareC := 100\<rparr>)))) ! 0)
   \<and> key (results (the (js_simulate
         (fin_inputs (default_inputs\<lparr>years := 0, investShareC := 100\<rparr>)))) ! 0)
       = KeyA (Fin 100)"
proof -
  let ?I = "default_inputs\<lparr>years := 0, investShareC := 100\<rparr>"
  let ?out = "the (js_simulate (fin_inputs ?I))"
  let ?rs = "results ?out"
  have y: "years ?I < 1"
    by simp
  have np: "netProceeds ?I = 1222000"
    by (rule default_netProceeds; simp add: default_inputs_def)
  have c: "cashC ?I = 0"
    by (simp add: cashC_def pct_def)
  have dp: "dpB ?I = 611000"
    by (simp add: dpB_def np) (simp add: default_inputs_def pct_def)
  have cl: "smallerHomePrice ?I * pct (smallerHomeClosingPct ?I) = 17500"
    by (simp add: default_inputs_def pct_def)
  have r: "1 + pct (discountRatePct ?I) = 211 / 200"
    by (simp add: default_inputs_def pct_def)
  have k: "investShareA ?I = 100"
    by (simp add: default_inputs_def)
  have sim: "js_simulate (fin_inputs ?I) = Some ?out"
    by (simp add: js_simulate_zero_horizon [OF y])
  have rs: "?rs =
      [ \<lparr> key = KeyA (Fin 100), res_npv = Fin 0, terminal = Fin 0,
          color = ''from-sky-500/20 to-sky-500/5'', stroke = ''#0ea5e9'' \<rparr>,
        \<lparr> key = KeyB (Fin (investShareB ?I)), res_npv = Fin (- 628500), terminal = Fin 0,
          color = ''from-emerald-500/20 to-emerald-500/5'', stroke = ''#10b981'' \<rparr>,
        \<lparr> key = KeyC (Fin (investShareC ?I)), res_npv = Fin 0, terminal = Fin 0,
          color = ''from-amber-500/20 to-amber-500/5'', stroke = ''#f59e0b'' \<rparr>,
        \<lparr> key = KeyD, res_npv = Fin 0, terminal = Fin 0,
          color = ''from-violet-500/20 to-violet-500/5'', stroke = ''#8b5cf6'' \<rparr> ]"
    unfolding js_simulate_zero_horizon [OF y] np c dp cl r k by simp
  have npvs: "map res_npv ?rs = [Fin 0, Fin (- 628500), Fin 0, Fin 0]"
    by (simp only: rs) simp
  have fin: "\<forall>r\<in>set ?rs. \<exists>v. res_npv r = Fin v"
    by (simp only: rs) simp
  have key0: "key (?rs ! 0) = KeyA (Fin 100)"
    by (simp only: rs) simp
  from C9_best_scenario [OF sim fin] obtain i where i: "i < 4"
    and b: "best ?rs = Some (?rs ! i)"
    and fst: "\<forall>j<i. res_npv (?rs ! j) < res_npv (?rs ! i)"
    by blast
  have z: "res_npv (?rs ! 0) = Fin 0"
    by (simp only: rs) simp
  have le: "res_npv (?rs ! i) \<le> Fin 0"
    using i by (simp only: rs) (auto simp: less_Suc_eq numeral_eq_Suc)
  have "i = 0"
  proof (rule ccontr)
    assume "i \<noteq> 0"
    then have "res_npv (?rs ! 0) < res_npv (?rs ! i)"
      using fst by simp
    with z le show False
      by (cases "res_npv (?rs ! i)") simp_all
  qed
  with b npvs key0 show ?thesis
    by simp
qed

text \<open>
  The claim as stated fails on the initial form state with a zero-length horizon and a
  discount rate of -100%: the NPVs are \<open>NaN\<close>, \<open>NaN\<close>, \<open>Infinity\<close> and \<open>NaN\<close>, every
  comparison of the sort is \<open>NaN\<close>, the order stays as it is, and the best scenario is
  A, whose NPV is not maximal: \<open>Infinity <= NaN\<close> is false.
\<close>

theorem C9_counterexample:
  "map res_npv
     (results (the (js_simulate
        (fin_inputs (default_inputs\<lparr>years := 0, discountRatePct := - 100\<rparr>)))))
     = [NaN, NaN, PInf, NaN]
   \<and> map_option key
        (best (results (the (js_simulate
           (fin_inputs (default_inputs\<lparr>years := 0, discountRatePct := - 100\<rparr>))))))
       = Some (KeyA (Fin 100))
   \<and> \<not> res_npv (results (the (js_simulate
            (fin_inputs (default_inputs\<lparr>years := 0, discountRatePct := - 100\<rparr>)))) ! 2)
         \<le> res_npv (results (the (js_simulate
            (fin_inputs (default_inputs\<lparr>years := 0, discountRatePct := - 100\<rparr>)))) ! 0)"
proof -
  let ?I = "default_inputs\<lparr>years := 0, discountRatePct := - 100\<rparr>"
  let ?rs = "results (the (js_simulate (fin_inputs ?I)))"
  have y: "years ?I < 1"
    by simp
  have np: "netProceeds ?I = 1222000"
    by (rule default_netProceeds; simp add: default_inputs_def)
  have c: "cashC ?I = 611000"
    by (simp add: cashC_def np) (simp add: default_inputs_def pct_def)
  have r: "1 + pct (discountRatePct ?I) = 0"
    by (simp add: pct_def)
  have k: "investShareA ?I = 100"
    by (simp add: default_inputs_def)
  have rs: "?rs =
      [ \<lparr> key = KeyA (Fin 100), res_npv = NaN, terminal = Fin 0,
          color = ''from-sky-500/20 to-sky-500/5'', stroke = ''#0ea5e9'' \<rparr>,
        \<lparr> key = KeyB (Fin (investShareB ?I)), res_npv = NaN, terminal = Fin 0,
          color = ''from-emerald-500/20 to-emerald-500/5'', stroke = ''#10b981'' \<rparr>,
        \<lparr> key = KeyC (Fin (investShareC ?I)), res_npv = PInf, terminal = Fin 611000,
          color = ''from-amber-500/20 to-amber-500/5'', stroke = ''#f59e0b'' \<rparr>,
        \<lparr> key = KeyD, res_npv = NaN, terminal = Fin 0,
          color = ''from-violet-500/20 to-violet-500/5'', stroke = ''#8b5cf6'' \<rparr> ]"
    unfolding js_simulate_zero_horizon [OF y] np c r k by (simp add: inf_of_sign_def)
  show ?thesis
    by (simp only: rs) (simp add: best_def sort_by_def minus_number_def)
qed

end
